theory Spec2Isabelle
  imports Complex_Main "HOL-Library.Multiset"
begin

section \<open>Values shared by both systems\<close>

text \<open>
  A cell of an SQLite table and a scalar of the JSON payload: NULL / \<open>None\<close>, a text, an
  integer (SQLite INTEGER, Python \<open>int\<close>) or a finite float (SQLite REAL, Python
  \<open>float\<close>). A float is kept as the rational number it denotes: the programs only store,
  copy, compare and print it.
\<close>

datatype jval = JNull | JStr string | JNum int | JReal rat

text \<open>
  SQL equality of two non-NULL values of one column: numbers are compared by value across
  INTEGER and REAL, everything else by class and content.
\<close>

fun same_value :: "jval \<Rightarrow> jval \<Rightarrow> bool" where
  "same_value (JNum a) (JReal b) = (of_int a = b)"
| "same_value (JReal a) (JNum b) = (a = of_int b)"
| "same_value a b = (a = b)"

text \<open>A JSON object / Python \<open>dict\<close> with scalar values, as an association list.\<close>

type_synonym dict = "(string \<times> jval) list"

section \<open>The HR database (scripts/init\_hr\_db.py)\<close>

text \<open>
  Table \<open>employees\<close>. \<open>employee_id\<close> is the TEXT primary key; \<open>first_name\<close>,
  \<open>last_name\<close> and \<open>email\<close> are TEXT NOT NULL; the other columns may hold NULL.
\<close>

record employee =
  employee_id :: string
  first_name :: string
  last_name :: string
  email :: string
  department :: jval
  position :: jval
  salary :: jval
  status :: jval
  created_at :: jval
  updated_at :: jval

text \<open>
  Table \<open>employee_change_log\<close>. \<open>old_values\<close> and \<open>new_values\<close> are nullable TEXT
  columns that only the two triggers write, always through \<open>json_object\<close>; the model keeps
  the JSON object that text denotes (\<open>None\<close> for SQL NULL). \<open>change_timestamp\<close> defaults
  to \<open>CURRENT_TIMESTAMP\<close> (second precision); it is kept as the instant, in seconds.
\<close>

record change_log_row =
  cl_id :: nat
  cl_employee_id :: string
  cl_change_type :: string
  cl_old_values :: "dict option"
  cl_new_values :: "dict option"
  cl_change_timestamp :: nat
  cl_processed :: bool

text \<open>
  The database file: the rows of each table, listed in any order. \<open>log_seq\<close> is the
  AUTOINCREMENT counter of \<open>employee_change_log\<close>.
\<close>

record hr_db =
  employees :: "employee list"
  employee_change_log :: "change_log_row list"
  log_seq :: nat

subsection \<open>SQL comparison with NULL\<close>

text \<open>
  \<open>a != b\<close> in SQL is NULL (here \<open>None\<close>) as soon as one operand is NULL, and \<open>OR\<close> is the
  three-valued disjunction. A trigger's WHEN clause fires only when it evaluates to true.
\<close>

definition sql_ne :: "jval \<Rightarrow> jval \<Rightarrow> bool option" where
  "sql_ne a b = (if a = JNull \<or> b = JNull then None else Some (\<not> same_value a b))"

fun sql_or :: "bool option \<Rightarrow> bool option \<Rightarrow> bool option" where
  "sql_or (Some True) _ = Some True"
| "sql_or _ (Some True) = Some True"
| "sql_or (Some False) (Some False) = Some False"
| "sql_or _ _ = None"

subsection \<open>The triggers\<close>

text \<open>The WHEN clause of \<open>employee_update_trigger\<close>, over the OLD and the NEW row.\<close>

definition update_trigger_when :: "employee \<Rightarrow> employee \<Rightarrow> bool option" where
  "update_trigger_when old new =
     sql_or (sql_or (sql_or (sql_or (sql_or (sql_or
       (sql_ne (JStr (first_name old)) (JStr (first_name new)))
       (sql_ne (JStr (last_name old)) (JStr (last_name new))))
       (sql_ne (JStr (email old)) (JStr (email new))))
       (sql_ne (department old) (department new)))
       (sql_ne (position old) (position new)))
       (sql_ne (salary old) (salary new)))
       (sql_ne (status old) (status new))"

text \<open>The \<open>json_object\<close> of the seven tracked columns of a row.\<close>

definition tracked_json :: "employee \<Rightarrow> dict" where
  "tracked_json e =
     [(''first_name'', JStr (first_name e)), (''last_name'', JStr (last_name e)),
      (''email'', JStr (email e)), (''department'', department e),
      (''position'', position e), (''salary'', salary e), (''status'', status e)]"

text \<open>
  An INSERT into \<open>employee_change_log\<close> that names \<open>employee_id\<close>, \<open>change_type\<close>,
  \<open>old_values\<close> and \<open>new_values\<close>: the id comes from the AUTOINCREMENT counter, the
  timestamp from \<open>CURRENT_TIMESTAMP\<close> (\<open>now\<close>), and \<open>processed\<close> is FALSE by default.
\<close>

definition insert_change_log :: "nat \<Rightarrow> string \<Rightarrow> string \<Rightarrow> dict \<Rightarrow> dict \<Rightarrow> hr_db \<Rightarrow> hr_db" where
  "insert_change_log now eid ctype old_v new_v db =
     db\<lparr>employee_change_log := employee_change_log db @
           [\<lparr>cl_id = Suc (log_seq db), cl_employee_id = eid, cl_change_type = ctype,
             cl_old_values = Some old_v, cl_new_values = Some new_v,
             cl_change_timestamp = now, cl_processed = False\<rparr>],
        log_seq := Suc (log_seq db)\<rparr>"

text \<open>\<open>employee_update_trigger\<close>: AFTER UPDATE ON employees, FOR EACH ROW, WHEN ...\<close>

definition employee_update_trigger :: "nat \<Rightarrow> employee \<Rightarrow> employee \<Rightarrow> hr_db \<Rightarrow> hr_db" where
  "employee_update_trigger now old new db =
     (if update_trigger_when old new = Some True
      then insert_change_log now (employee_id new) ''UPDATE''
             (tracked_json old) (tracked_json new) db
      else db)"

text \<open>\<open>employee_insert_trigger\<close>: AFTER INSERT ON employees, FOR EACH ROW.\<close>

definition employee_insert_trigger :: "nat \<Rightarrow> employee \<Rightarrow> hr_db \<Rightarrow> hr_db" where
  "employee_insert_trigger now new db =
     insert_change_log now (employee_id new) ''INSERT'' []
       ((''employee_id'', JStr (employee_id new)) # tracked_json new) db"

text \<open>
  An UPDATE statement that rewrites the row of employee \<open>eid\<close> to \<open>set_clause old\<close>
  (the SET clause leaves \<open>employee_id\<close> alone, as \<open>update_employee\<close> of
  scripts/add\_update\_employee.py does), followed by the trigger for that row.
\<close>

definition update_employees :: "nat \<Rightarrow> string \<Rightarrow> (employee \<Rightarrow> employee) \<Rightarrow> hr_db \<Rightarrow> hr_db" where
  "update_employees now eid set_clause db =
     (case find (\<lambda>e. employee_id e = eid) (employees db) of
        None \<Rightarrow> db
      | Some old \<Rightarrow>
          let new = (set_clause old)\<lparr>employee_id := eid\<rparr> in
          employee_update_trigger now old new
            (db\<lparr>employees := map (\<lambda>e. if employee_id e = eid then new else e) (employees db)\<rparr>))"

section \<open>The HR change detection server (hr\_mcp\_server.py)\<close>

text \<open>One entry of the payload's \<open>changes\<close> list (\<open>change_data\<close> in the source).\<close>

record change =
  log_id :: nat
  ch_employee_id :: string
  ch_change_type :: string
  ch_old_values :: dict
  ch_new_values :: dict
  ch_change_timestamp :: nat
  current_employee_data :: dict

record metadata =
  generated_by :: string
  sync_id :: string
  md_status :: string
  processed_timestamp :: "string option"
  processed_by :: "string option"

record payload =
  source_system :: string
  target_system :: string
  sync_timestamp :: string
  total_changes :: nat
  changes :: "change list"
  metadata :: metadata

text \<open>
  \<open>FROM employee_change_log cl LEFT JOIN employees e ON cl.employee_id = e.employee_id\<close>:
  every log row with each employee row of the same id, or once with NULLs when there is
  none.
\<close>

definition left_join :: "change_log_row list \<Rightarrow> employee list \<Rightarrow> (change_log_row \<times> employee option) list" where
  "left_join rows emps =
     concat (map (\<lambda>cl.
        case filter (\<lambda>e. employee_id e = cl_employee_id cl) emps of
          [] \<Rightarrow> [(cl, None)]
        | es \<Rightarrow> map (\<lambda>e. (cl, Some e)) es) rows)"

text \<open>
  \<open>employee_change_log\<close> is a rowid table whose rowid is \<open>id\<close> (INTEGER PRIMARY KEY); the
  query has no index to use, so SQLite scans the table in ascending \<open>id\<close>.
\<close>

definition scan_change_log :: "hr_db \<Rightarrow> change_log_row list" where
  "scan_change_log db = sort_key cl_id (employee_change_log db)"

text \<open>
  The query of both tools: \<open>... WHERE cl.processed = FALSE ORDER BY cl.change_timestamp ASC\<close>.
  The ORDER BY has the single key \<open>change_timestamp\<close>; SQLite's sorter leaves rows with
  equal keys in the order in which the scan produced them (\<open>sort_key\<close> is stable).
\<close>

definition select_unprocessed :: "hr_db \<Rightarrow> (change_log_row \<times> employee option) list" where
  "select_unprocessed db =
     sort_key (\<lambda>row. cl_change_timestamp (fst row))
       (filter (\<lambda>row. \<not> cl_processed (fst row))
          (left_join (scan_change_log db) (employees db)))"

text \<open>The dict built from one cursor row; the joined columns are \<open>None\<close> without a match.\<close>

definition current_data :: "employee option \<Rightarrow> dict" where
  "current_data e =
     (case e of
        None \<Rightarrow> [(''first_name'', JNull), (''last_name'', JNull), (''email'', JNull),
                 (''department'', JNull), (''position'', JNull), (''salary'', JNull),
                 (''status'', JNull)]
      | Some r \<Rightarrow> tracked_json r)"

definition change_data :: "change_log_row \<times> employee option \<Rightarrow> change" where
  "change_data row =
     \<lparr>log_id = cl_id (fst row),
      ch_employee_id = cl_employee_id (fst row),
      ch_change_type = cl_change_type (fst row),
      ch_old_values = (case cl_old_values (fst row) of None \<Rightarrow> [] | Some d \<Rightarrow> d),
      ch_new_values = (case cl_new_values (fst row) of None \<Rightarrow> [] | Some d \<Rightarrow> d),
      ch_change_timestamp = cl_change_timestamp (fst row),
      current_employee_data = current_data (snd row)\<rparr>"

text \<open>
  What the tools see of the outside world: the database file at \<open>HR_DB_PATH\<close> (absent or
  present) and the payload file at \<open>PAYLOAD_PATH\<close>.
\<close>

record hr_system =
  hr_db_file :: "hr_db option"
  payload_file :: "payload option"

text \<open>
  The statements of a tool that can raise for reasons outside the data: the SELECT
  (connect, missing table, locked file), creating or opening the payload file, the UPDATE
  of the flags (locked file) and the commit. One call meets at most one of them. A write
  that breaks off in the middle of \<open>json.dump\<close> is not modelled.
\<close>

datatype fault = NoFault | SelectFails | OpenFails | UpdateFails | CommitFails

datatype hr_error = DatabaseNotFound | OperationalError | OSError

text \<open>
  What a call takes from outside the database: the fault it meets, the readings of
  \<open>datetime.now()\<close> (the ISO text for \<open>sync_timestamp\<close> and the \<open>%Y%m%d_%H%M%S\<close> text
  for the sync id), and the engine's limit on the number of \<open>?\<close> parameters of one
  statement (\<open>SQLITE_MAX_VARIABLE_NUMBER\<close>: 32766 since SQLite 3.32, 999 before).
\<close>

record env =
  fault :: fault
  now_iso :: string
  now_stamp :: string
  max_variables :: nat

datatype detect_result =
    DetectError hr_error
  | Detected nat "change list" string

text \<open>Tool 1, \<open>detect_changes\<close>.\<close>

definition detect_changes :: "env \<Rightarrow> hr_system \<Rightarrow> detect_result \<times> hr_system" where
  "detect_changes ev st =
     (case hr_db_file st of
        None \<Rightarrow> (DetectError DatabaseNotFound, st)
      | Some db \<Rightarrow>
          if fault ev = SelectFails then (DetectError OperationalError, st)
          else
            let changes = map change_data (select_unprocessed db) in
            (Detected (length changes) changes (now_iso ev), st))"

datatype payload_result =
    PayloadError hr_error
  | NoChanges
  | Created nat string

text \<open>The fields \<open>success\<close> and \<open>changes_processed\<close> of the returned dict.\<close>

fun success :: "payload_result \<Rightarrow> bool" where
  "success (PayloadError _) = False"
| "success NoChanges = True"
| "success (Created _ _) = True"

fun changes_processed :: "payload_result \<Rightarrow> nat option" where
  "changes_processed (PayloadError _) = None"
| "changes_processed NoChanges = Some 0"
| "changes_processed (Created n _) = Some n"

definition build_payload :: "env \<Rightarrow> change list \<Rightarrow> payload" where
  "build_payload ev chs =
     \<lparr>source_system = ''hr_system'',
      target_system = ''payroll_system'',
      sync_timestamp = now_iso ev,
      total_changes = length chs,
      changes = chs,
      metadata = \<lparr>generated_by = ''HR Change Detection System'',
                   sync_id = ''SYNC_'' @ now_stamp ev,
                   md_status = ''ready_for_sync'',
                   processed_timestamp = None,
                   processed_by = None\<rparr>\<rparr>"

text \<open>\<open>UPDATE employee_change_log SET processed = TRUE WHERE id IN (...)\<close>.\<close>

definition mark_processed :: "nat list \<Rightarrow> change_log_row list \<Rightarrow> change_log_row list" where
  "mark_processed log_ids rows =
     map (\<lambda>cl. if cl_id cl \<in> set log_ids then cl\<lparr>cl_processed := True\<rparr> else cl) rows"

text \<open>
  The UPDATE of the flags has one \<open>?\<close> per extracted change; beyond the engine's limit it
  raises \<open>OperationalError\<close> (too many SQL variables) before touching a row.
\<close>

definition update_fails :: "env \<Rightarrow> nat list \<Rightarrow> bool" where
  "update_fails ev log_ids \<longleftrightarrow> max_variables ev < length log_ids \<or> fault ev = UpdateFails"

text \<open>
  Tool 2, \<open>create_sync_payload\<close>. The payload file is written first; the UPDATE of the flags
  runs in the connection's implicit transaction and reaches the database file only with
  \<open>conn.commit()\<close>, so an exception before the commit returns leaves every flag as it was.
  The code after the first \<open>return\<close> of the success path is unreachable.
\<close>

definition create_sync_payload :: "env \<Rightarrow> hr_system \<Rightarrow> payload_result \<times> hr_system" where
  "create_sync_payload ev st =
     (case hr_db_file st of
        None \<Rightarrow> (PayloadError DatabaseNotFound, st)
      | Some db \<Rightarrow>
          if fault ev = SelectFails then (PayloadError OperationalError, st)
          else
            let chs = map change_data (select_unprocessed db) in
            if chs = [] then (NoChanges, st)
            else
              let p = build_payload ev chs in
              if fault ev = OpenFails then (PayloadError OSError, st)
              else
                let st1 = st\<lparr>payload_file := Some p\<rparr>;
                    log_ids = map log_id chs
                in
                if update_fails ev log_ids \<or> fault ev = CommitFails
                then (PayloadError OperationalError, st1)
                else
                  (Created (length chs) (sync_id (metadata p)),
                   st1\<lparr>hr_db_file := Some (db\<lparr>employee_change_log :=
                          mark_processed log_ids (employee_change_log db)\<rparr>)\<rparr>))"

section \<open>The payroll database (scripts/init\_payroll\_db.py)\<close>

text \<open>
  Table \<open>payroll_employees\<close>: \<open>employee_id\<close> is the TEXT primary key, \<open>full_name\<close> is
  TEXT NOT NULL and \<open>email\<close> is TEXT UNIQUE NOT NULL. \<open>full_name\<close> only ever receives a Python
  string; the other cells hold the scalar bound to them, after the conversion of the
  column's affinity (TEXT for \<open>employee_id\<close>, \<open>email\<close>, \<open>department\<close>, \<open>position\<close> and
  \<open>tax_status\<close>, NUMERIC for \<open>base_salary DECIMAL(10,2)\<close>).
\<close>

record payroll_employee =
  pe_employee_id :: jval
  full_name :: string
  pe_email :: jval
  pe_department :: jval
  pe_position :: jval
  base_salary :: jval
  pay_grade :: jval
  tax_status :: jval
  last_sync_timestamp :: jval
  pe_created_at :: jval
  pe_updated_at :: jval

text \<open>
  Table \<open>sync_log\<close>, with the columns the agent writes and \<open>error_message\<close>, which it never
  names (NULL). \<open>source_data\<close> holds \<open>json.dumps(change)\<close>; the model keeps the change that
  text serialises. The surrogate \<open>id\<close> and the defaulted \<open>sync_timestamp\<close> are left out.
\<close>

record sync_log_row =
  sl_employee_id :: string
  sync_type :: string
  source_data :: change
  sync_status :: string
  error_message :: "string option"

record payroll_db =
  payroll_employees :: "payroll_employee list"
  sync_log :: "sync_log_row list"

section \<open>The payroll agent (payroll\_agent.py)\<close>

text \<open>
  The file at \<open>SYNC_PAYLOAD_PATH\<close> and the database at \<open>PAYROLL_DB_PATH\<close> (initialised by
  scripts/init\_payroll\_db.py).
\<close>

record payroll_system =
  sync_payload_file :: "payload option"
  payroll_db_file :: payroll_db

text \<open>
  What one call takes from outside the payload and the database. First the clock:
  \<open>datetime.now().isoformat()\<close> while the change at position \<open>i\<close> of the payload is
  applied, SQLite's \<open>CURRENT_TIMESTAMP\<close> in that statement, and
  \<open>datetime.now().isoformat()\<close> when the payload file is annotated; these are date texts,
  which no affinity converts. Then the conversions between floats and text that Python and
  SQLite perform: Python's \<open>str()\<close> of a float, the text SQLite stores for a REAL in a TEXT
  column, and the number SQLite reads from a text that is a well-formed numeric literal
  (\<open>None\<close> for any other text).
\<close>

record ambient =
  apply_time :: "nat \<Rightarrow> string"
  current_timestamp :: "nat \<Rightarrow> string"
  processed_time :: string
  float_str :: "rat \<Rightarrow> string"
  real_text :: "rat \<Rightarrow> string"
  text_number :: "string \<Rightarrow> jval option"

text \<open>The exceptions the data can cause inside the \<open>try\<close> block.\<close>

datatype py_error = KeyError string | IntegrityError string | OverflowError

text \<open>\<open>d[k]\<close> on a dict.\<close>

definition getitem :: "dict \<Rightarrow> string \<Rightarrow> py_error + jval" where
  "getitem d k = (case map_of d k of None \<Rightarrow> Inl (KeyError k) | Some v \<Rightarrow> Inr v)"

text \<open>Sequencing: the first exception ends the evaluation.\<close>

definition and_then :: "'e + 'a \<Rightarrow> ('a \<Rightarrow> 'e + 'b) \<Rightarrow> 'e + 'b" where
  "and_then r f = (case r of Inl e \<Rightarrow> Inl e | Inr v \<Rightarrow> f v)"

text \<open>Python's \<open>str()\<close>, which an f-string applies to each field.\<close>

function show_nat :: "nat \<Rightarrow> string" where
  "show_nat n =
     (if n < 10 then [char_of (48 + n)]
      else show_nat (n div 10) @ [char_of (48 + n mod 10)])"
  by pat_completeness auto
termination
  by (relation "measure (\<lambda>n. n)") auto

declare show_nat.simps [simp del]

definition show_int :: "int \<Rightarrow> string" where
  "show_int i = (if i < 0 then CHR ''-'' # show_nat (nat (- i)) else show_nat (nat i))"

fun py_str :: "ambient \<Rightarrow> jval \<Rightarrow> string" where
  "py_str clk JNull = ''None''"
| "py_str clk (JStr s) = s"
| "py_str clk (JNum n) = show_int n"
| "py_str clk (JReal q) = float_str clk q"

text \<open>
  \<open>cursor.execute\<close> converts every parameter before the statement runs: a Python \<open>int\<close>
  must fit SQLite's 64-bit INTEGER, or \<open>OverflowError\<close> is raised.
\<close>

fun bindable :: "jval \<Rightarrow> bool" where
  "bindable (JNum n) = (- (2 ^ 63) \<le> n \<and> n < 2 ^ 63)"
| "bindable _ = True"

definition bind_parameters :: "jval list \<Rightarrow> py_error + unit" where
  "bind_parameters vs = (if list_all bindable vs then Inr () else Inl OverflowError)"

text \<open>
  Column affinity. A TEXT column stores a number as its text. A NUMERIC column stores a
  text that is a well-formed numeric literal as that number, and a REAL that is an integer
  strictly inside the 64-bit range as that INTEGER.
\<close>

fun text_affinity :: "ambient \<Rightarrow> jval \<Rightarrow> jval" where
  "text_affinity clk (JNum n) = JStr (show_int n)"
| "text_affinity clk (JReal q) = JStr (real_text clk q)"
| "text_affinity clk v = v"

fun integer_if_exact :: "jval \<Rightarrow> jval" where
  "integer_if_exact (JReal q) =
     (if q = of_int \<lfloor>q\<rfloor> \<and> - (2 ^ 63) < \<lfloor>q\<rfloor> \<and> \<lfloor>q\<rfloor> < 2 ^ 63 - 1
      then JNum \<lfloor>q\<rfloor> else JReal q)"
| "integer_if_exact v = v"

fun numeric_affinity :: "ambient \<Rightarrow> jval \<Rightarrow> jval" where
  "numeric_affinity clk (JStr s) =
     (case text_number clk s of None \<Rightarrow> JStr s | Some v \<Rightarrow> integer_if_exact v)"
| "numeric_affinity clk v = integer_if_exact v"

text \<open>
  \<open>INSERT OR REPLACE INTO payroll_employees\<close>: a NULL \<open>email\<close> has no default to fall back
  on, so the statement aborts; otherwise every row that collides with the new one on the
  primary key or on the unique \<open>email\<close> is deleted and the new row is inserted. A NULL
  primary key collides with nothing.
\<close>

definition insert_or_replace :: "payroll_employee \<Rightarrow> payroll_employee list \<Rightarrow> py_error + payroll_employee list" where
  "insert_or_replace r tbl =
     (if pe_email r = JNull
      then Inl (IntegrityError ''NOT NULL constraint failed: payroll_employees.email'')
      else Inr (filter (\<lambda>old. \<not> ((pe_employee_id r \<noteq> JNull \<and> pe_employee_id old = pe_employee_id r)
                                  \<or> pe_email old = pe_email r)) tbl @ [r]))"

text \<open>
  \<open>UPDATE payroll_employees SET ..., email=?, ... WHERE employee_id=?\<close>: without a matching
  row nothing is checked or written; with one, a NULL \<open>email\<close> or an \<open>email\<close> that another
  row already holds aborts the statement.
\<close>

definition update_employee_row :: "string \<Rightarrow> jval \<Rightarrow> (payroll_employee \<Rightarrow> payroll_employee) \<Rightarrow> payroll_employee list \<Rightarrow> py_error + payroll_employee list" where
  "update_employee_row eid new_email set_clause tbl =
     (if \<not> list_ex (\<lambda>r. pe_employee_id r = JStr eid) tbl then Inr tbl
      else if new_email = JNull
      then Inl (IntegrityError ''NOT NULL constraint failed: payroll_employees.email'')
      else if list_ex (\<lambda>r. pe_employee_id r \<noteq> JStr eid \<and> pe_email r = new_email) tbl
      then Inl (IntegrityError ''UNIQUE constraint failed: payroll_employees.email'')
      else Inr (map (\<lambda>r. if pe_employee_id r = JStr eid then set_clause r else r) tbl))"

text \<open>
  \<open>UPDATE payroll_employees SET tax_status='inactive', last_sync_timestamp=? WHERE
  employee_id=?\<close>: no constraint is involved.
\<close>

definition deactivate_row :: "string \<Rightarrow> string \<Rightarrow> payroll_employee list \<Rightarrow> payroll_employee list" where
  "deactivate_row eid now tbl =
     map (\<lambda>r. if pe_employee_id r = JStr eid
               then r\<lparr>tax_status := JStr ''inactive'', last_sync_timestamp := JStr now\<rparr>
               else r) tbl"

text \<open>The lines appended to \<open>results\<close>.\<close>

datatype applied =
    Added string string
  | Updated string string
  | Deactivated string

text \<open>
  The body of the first loop for the change at position \<open>i\<close>: the table after it and the
  lines it appends to \<open>results\<close>, or the exception it raises.
\<close>

definition apply_change :: "ambient \<Rightarrow> nat \<Rightarrow> payroll_employee list \<Rightarrow> change \<Rightarrow> py_error + (payroll_employee list \<times> applied list)" where
  "apply_change clk i tbl c =
     (let employee_id = ch_employee_id c; change_type = ch_change_type c in
      if change_type = ''INSERT'' then
        let new_data = ch_new_values c in
        and_then (getitem new_data ''first_name'') (\<lambda>first.
        and_then (getitem new_data ''last_name'') (\<lambda>last.
        let full = py_str clk first @ '' '' @ py_str clk last in
        and_then (getitem new_data ''employee_id'') (\<lambda>new_id.
        and_then (getitem new_data ''email'') (\<lambda>new_email.
        and_then (getitem new_data ''department'') (\<lambda>new_department.
        and_then (getitem new_data ''position'') (\<lambda>new_position.
        and_then (getitem new_data ''salary'') (\<lambda>new_salary.
        and_then (getitem new_data ''status'') (\<lambda>new_status.
        and_then (bind_parameters
            [new_id, new_email, new_department, new_position, new_salary, new_status]) (\<lambda>_.
        and_then (insert_or_replace
            \<lparr>pe_employee_id = text_affinity clk new_id, full_name = full,
             pe_email = text_affinity clk new_email,
             pe_department = text_affinity clk new_department,
             pe_position = text_affinity clk new_position,
             base_salary = numeric_affinity clk new_salary, pay_grade = JNull,
             tax_status = text_affinity clk new_status,
             last_sync_timestamp = JStr (apply_time clk i),
             pe_created_at = JStr (current_timestamp clk i),
             pe_updated_at = JStr (current_timestamp clk i)\<rparr> tbl) (\<lambda>tbl'.
        Inr (tbl', [Added employee_id full])))))))))))
      else if change_type = ''UPDATE'' then
        let new_data = ch_new_values c in
        and_then (getitem new_data ''first_name'') (\<lambda>first.
        and_then (getitem new_data ''last_name'') (\<lambda>last.
        let full = py_str clk first @ '' '' @ py_str clk last in
        and_then (getitem new_data ''email'') (\<lambda>new_email.
        and_then (getitem new_data ''department'') (\<lambda>new_department.
        and_then (getitem new_data ''position'') (\<lambda>new_position.
        and_then (getitem new_data ''salary'') (\<lambda>new_salary.
        and_then (getitem new_data ''status'') (\<lambda>new_status.
        and_then (bind_parameters
            [new_email, new_department, new_position, new_salary, new_status]) (\<lambda>_.
        and_then (update_employee_row employee_id (text_affinity clk new_email)
            (\<lambda>r. r\<lparr>full_name := full, pe_email := text_affinity clk new_email,
                    pe_department := text_affinity clk new_department,
                    pe_position := text_affinity clk new_position,
                    base_salary := numeric_affinity clk new_salary,
                    tax_status := text_affinity clk new_status,
                    last_sync_timestamp := JStr (apply_time clk i)\<rparr>) tbl) (\<lambda>tbl'.
        Inr (tbl', [Updated employee_id full]))))))))))
      else if change_type = ''DELETE'' then
        Inr (deactivate_row employee_id (apply_time clk i) tbl, [Deactivated employee_id])
      else Inr (tbl, []))"

text \<open>
  The first loop, \<open>for change in payload['changes']\<close>, from position \<open>i\<close> on, over the table,
  \<open>processed_count\<close> and \<open>results\<close>. An exception leaves the loop and the \<open>try\<close> block.
\<close>

fun apply_changes :: "ambient \<Rightarrow> nat \<Rightarrow> change list \<Rightarrow> payroll_employee list \<times> nat \<times> applied list \<Rightarrow> py_error + (payroll_employee list \<times> nat \<times> applied list)" where
  "apply_changes clk i [] acc = Inr acc"
| "apply_changes clk i (c # cs) (tbl, processed_count, results) =
     (case apply_change clk i tbl c of
        Inl e \<Rightarrow> Inl e
      | Inr (tbl', lines) \<Rightarrow>
          apply_changes clk (Suc i) cs (tbl', processed_count + 1, results @ lines))"

text \<open>The row the second loop inserts into \<open>sync_log\<close> for a change.\<close>

definition sync_log_entry :: "change \<Rightarrow> sync_log_row" where
  "sync_log_entry c =
     \<lparr>sl_employee_id = ch_employee_id c,
      sync_type = ''HR_'' @ ch_change_type c,
      source_data = c,
      sync_status = ''completed'',
      error_message = None\<rparr>"

text \<open>
  What the tool returns: the message that no payload was found, the error message of the
  \<open>except\<close> branch, or the summary, made of \<open>processed_count\<close>, the payload's
  \<open>source_system\<close> and \<open>sync_id\<close>, and the \<open>results\<close> lines.
\<close>

datatype sync_result =
    NoPayloadFound
  | SyncError py_error
  | SyncCompleted nat string string "applied list"

fun processed_count :: "sync_result \<Rightarrow> nat option" where
  "processed_count (SyncCompleted n _ _ _) = Some n"
| "processed_count _ = None"

text \<open>
  The tool \<open>process_sync_payload\<close>. Both loops run inside one transaction that a single
  \<open>conn.commit()\<close> ends, and inside one \<open>try\<close>: an exception skips the commit and the
  rewriting of the payload file, so the database and the file stay as they were.
  Failures of the database engine and of the file system are left out on this side.
\<close>

definition process_sync_payload :: "ambient \<Rightarrow> payroll_system \<Rightarrow> sync_result \<times> payroll_system" where
  "process_sync_payload clk st =
     (case sync_payload_file st of
        None \<Rightarrow> (NoPayloadFound, st)
      | Some p \<Rightarrow>
          (case apply_changes clk 0 (changes p)
                  (payroll_employees (payroll_db_file st), 0, []) of
             Inl e \<Rightarrow> (SyncError e, st)
           | Inr (tbl, counted, results) \<Rightarrow>
               let db = \<lparr>payroll_employees = tbl,
                         sync_log = sync_log (payroll_db_file st)
                                      @ map sync_log_entry (changes p)\<rparr>;
                   p' = p\<lparr>metadata := (metadata p)
                           \<lparr>md_status := ''processed'',
                            processed_timestamp := Some (processed_time clk),
                            processed_by := Some ''Payroll System Agent''\<rparr>\<rparr>
               in (SyncCompleted counted (source_system p) (sync_id (metadata p)) results,
                   \<lparr>sync_payload_file = Some p', payroll_db_file = db\<rparr>)))"


section \<open>Auxiliary definitions for the statements\<close>

text \<open>
  The fields \<open>changes\<close> and \<open>changes_count\<close> of the dict \<open>detect_changes\<close> returns
  (absent from an error dict).
\<close>

fun detected_changes :: "detect_result \<Rightarrow> change list option" where
  "detected_changes (DetectError _) = None"
| "detected_changes (Detected n cs t) = Some cs"

fun changes_count :: "detect_result \<Rightarrow> nat option" where
  "changes_count (DetectError _) = None"
| "changes_count (Detected n cs t) = Some n"

text \<open>
  When \<open>employee_id\<close> is unique in \<open>employees\<close> (it is the primary key), the join pairs a
  log row with the one employee row of that id, if any.
\<close>

definition join_row :: "employee list \<Rightarrow> change_log_row \<Rightarrow> change_log_row \<times> employee option" where
  "join_row emps cl = (cl, find (\<lambda>e. employee_id e = cl_employee_id cl) emps)"

text \<open>The payload entry of a change event: the event with the current row of its employee.\<close>

definition event_change :: "hr_db \<Rightarrow> change_log_row \<Rightarrow> change" where
  "event_change db cl =
     change_data (cl, find (\<lambda>e. employee_id e = cl_employee_id cl) (employees db))"

text \<open>The change types the payroll agent has a branch for.\<close>

definition known_type :: "change \<Rightarrow> bool" where
  "known_type c \<longleftrightarrow> ch_change_type c \<in> {''INSERT'', ''UPDATE'', ''DELETE''}"

text \<open>A payload with \<open>metadata.status\<close> replaced.\<close>

definition set_status :: "string \<Rightarrow> payload \<Rightarrow> payload" where
  "set_status s p = p\<lparr>metadata := (metadata p)\<lparr>md_status := s\<rparr>\<rparr>"

text \<open>A payroll row with the two columns a deactivation writes blanked out.\<close>

definition except_sync_flags :: "payroll_employee \<Rightarrow> payroll_employee" where
  "except_sync_flags r = r\<lparr>tax_status := JNull, last_sync_timestamp := JNull\<rparr>"

section \<open>Example states\<close>

text \<open>
  An HR database with one employee whose INSERT event is still unprocessed; a database
  whose change log holds two unprocessed events of the same second, the one with id 2 listed
  first; a database with 32767 unprocessed events, one more than the engine lets one
  statement bind; and an employee without a department.
\<close>

definition emp1 :: employee where
  "emp1 = \<lparr>employee_id = ''EMP001'', first_name = ''John'', last_name = ''Doe'',
            email = ''john.doe@company.com'', department = JStr ''Engineering'',
            position = JStr ''Senior Developer'', salary = JNum 95000,
            status = JStr ''active'', created_at = JStr ''2025-01-01 09:00:00'',
            updated_at = JStr ''2025-01-01 09:00:00''\<rparr>"

definition emp9 :: employee where
  "emp9 = \<lparr>employee_id = ''EMP009'', first_name = ''Ada'', last_name = ''Lovelace'',
            email = ''ada@company.com'', department = JNull,
            position = JStr ''Analyst'', salary = JNum 90000,
            status = JStr ''active'', created_at = JStr ''2025-01-01 09:00:00'',
            updated_at = JStr ''2025-01-01 09:00:00''\<rparr>"

definition db_one :: hr_db where
  "db_one = employee_insert_trigger 100 emp1
              \<lparr>employees = [emp1], employee_change_log = [], log_seq = 0\<rparr>"

definition st_one :: hr_system where
  "st_one = \<lparr>hr_db_file = Some db_one, payload_file = None\<rparr>"

definition ev_ok :: env where
  "ev_ok = \<lparr>fault = NoFault, now_iso = ''2025-01-01T12:00:00'', now_stamp = ''20250101_120000'',
            max_variables = 32766\<rparr>"

definition ev_commit_fails :: env where
  "ev_commit_fails = ev_ok\<lparr>fault := CommitFails\<rparr>"

definition same_second_row :: "nat \<Rightarrow> change_log_row" where
  "same_second_row i = \<lparr>cl_id = i, cl_employee_id = ''EMP001'', cl_change_type = ''UPDATE'',
                cl_old_values = Some [], cl_new_values = Some [],
                cl_change_timestamp = 100, cl_processed = False\<rparr>"

definition db_same_second :: hr_db where
  "db_same_second = \<lparr>employees = [emp1],
       employee_change_log = [same_second_row 2, same_second_row 1], log_seq = 2\<rparr>"

definition st_same_second :: hr_system where
  "st_same_second = \<lparr>hr_db_file = Some db_same_second, payload_file = None\<rparr>"

definition db_many :: hr_db where
  "db_many = \<lparr>employees = [emp1],
       employee_change_log = map (\<lambda>i. same_second_row (Suc i)) [0..<32767],
       log_seq = 32767\<rparr>"

definition st_many :: hr_system where
  "st_many = \<lparr>hr_db_file = Some db_many, payload_file = None\<rparr>"

definition db_null :: hr_db where
  "db_null = \<lparr>employees = [emp9], employee_change_log = [], log_seq = 0\<rparr>"

text \<open>
  A payroll database with two employees, and payloads with an INSERT, an INSERT whose
  snapshot lacks \<open>first_name\<close>, an UPDATE for an employee the payroll does not know, a
  DELETE, an INSERT with a numeric \<open>employee_id\<close> and a fractional salary, an INSERT with
  a salary beyond 64 bits, and a change of a type the agent has no branch for.
\<close>

definition pe1 :: payroll_employee where
  "pe1 = \<lparr>pe_employee_id = JStr ''EMP001'', full_name = ''John Doe'',
          pe_email = JStr ''john.doe@company.com'', pe_department = JStr ''Engineering'',
          pe_position = JStr ''Senior Developer'', base_salary = JNum 95000,
          pay_grade = JStr ''L5'', tax_status = JStr ''active'',
          last_sync_timestamp = JNull, pe_created_at = JStr ''2025-01-01 09:00:00'',
          pe_updated_at = JStr ''2025-01-01 09:00:00''\<rparr>"

definition pe2 :: payroll_employee where
  "pe2 = \<lparr>pe_employee_id = JStr ''EMP002'', full_name = ''Jane Smith'',
          pe_email = JStr ''jane.smith@company.com'', pe_department = JStr ''Marketing'',
          pe_position = JStr ''Marketing Manager'', base_salary = JNum 85000,
          pay_grade = JStr ''L4'', tax_status = JStr ''active'',
          last_sync_timestamp = JNull, pe_created_at = JStr ''2025-01-01 09:00:00'',
          pe_updated_at = JStr ''2025-01-01 09:00:00''\<rparr>"

definition snapshot_paid :: "string \<Rightarrow> string \<Rightarrow> string \<Rightarrow> jval \<Rightarrow> dict" where
  "snapshot_paid fname lname mail pay =
     [(''first_name'', JStr fname), (''last_name'', JStr lname), (''email'', JStr mail),
      (''department'', JStr ''HR''), (''position'', JStr ''HR Specialist''),
      (''salary'', pay), (''status'', JStr ''active'')]"

definition snapshot :: "string \<Rightarrow> string \<Rightarrow> string \<Rightarrow> dict" where
  "snapshot fname lname mail = snapshot_paid fname lname mail (JNum 65000)"

definition mk_change :: "nat \<Rightarrow> string \<Rightarrow> string \<Rightarrow> dict \<Rightarrow> change" where
  "mk_change n eid ctype new_v =
     \<lparr>log_id = n, ch_employee_id = eid, ch_change_type = ctype, ch_old_values = [],
      ch_new_values = new_v, ch_change_timestamp = 100, current_employee_data = []\<rparr>"

definition insert_alice :: change where
  "insert_alice = mk_change 6 ''EMP004'' ''INSERT''
     ((''employee_id'', JStr ''EMP004'') # snapshot ''Alice'' ''Williams'' ''alice.williams@company.com'')"

definition insert_malformed :: change where
  "insert_malformed = mk_change 7 ''EMP005'' ''INSERT''
     [(''employee_id'', JStr ''EMP005''), (''last_name'', JStr ''Brown''),
      (''email'', JStr ''charlie.brown@company.com''), (''department'', JStr ''Engineering''),
      (''position'', JStr ''Junior Developer''), (''salary'', JNum 60000),
      (''status'', JStr ''active'')]"

definition update_ada :: change where
  "update_ada = mk_change 8 ''EMP009'' ''UPDATE'' (snapshot ''Ada'' ''Lovelace'' ''ada@company.com'')"

definition delete_john :: change where
  "delete_john = mk_change 9 ''EMP001'' ''DELETE'' []"

definition insert_seven :: change where
  "insert_seven = mk_change 11 ''7'' ''INSERT''
     ((''employee_id'', JNum 7) # snapshot_paid ''Sam'' ''Seven'' ''sam.seven@company.com''
                                   (JReal (130001 / 2)))"

definition insert_overpaid :: change where
  "insert_overpaid = mk_change 12 ''EMP004'' ''INSERT''
     ((''employee_id'', JStr ''EMP004'')
        # snapshot_paid ''Alice'' ''Williams'' ''alice.williams@company.com'' (JNum (2 ^ 63)))"

definition merge_john :: change where
  "merge_john = mk_change 10 ''EMP001'' ''MERGE'' []"

definition mk_payload :: "change list \<Rightarrow> payload" where
  "mk_payload cs =
     \<lparr>source_system = ''hr_system'', target_system = ''payroll_system'',
      sync_timestamp = ''2025-01-02T09:00:00'', total_changes = length cs, changes = cs,
      metadata = \<lparr>generated_by = ''HR Change Detection System'',
                   sync_id = ''SYNC_20250102_090000'', md_status = ''ready_for_sync'',
                   processed_timestamp = None, processed_by = None\<rparr>\<rparr>"

definition clk0 :: ambient where
  "clk0 = \<lparr>apply_time = (\<lambda>i. ''2025-01-02T10:00:00''),
           current_timestamp = (\<lambda>i. ''2025-01-02 10:00:00''),
           processed_time = ''2025-01-02T10:00:01'',
           float_str = (\<lambda>q. if q = 130001 / 2 then ''65000.5'' else []),
           real_text = (\<lambda>q. if q = 130001 / 2 then ''65000.5'' else []),
           text_number = (\<lambda>s. if s = ''65000'' then Some (JNum 65000) else None)\<rparr>"

definition payroll_with :: "change list \<Rightarrow> payroll_system" where
  "payroll_with cs =
     \<lparr>sync_payload_file = Some (mk_payload cs),
      payroll_db_file = \<lparr>payroll_employees = [pe1, pe2], sync_log = []\<rparr>\<rparr>"

definition alice_row :: payroll_employee where
  "alice_row = \<lparr>pe_employee_id = JStr ''EMP004'', full_name = ''Alice Williams'',
          pe_email = JStr ''alice.williams@company.com'', pe_department = JStr ''HR'',
          pe_position = JStr ''HR Specialist'', base_salary = JNum 65000,
          pay_grade = JNull, tax_status = JStr ''active'',
          last_sync_timestamp = JStr ''2025-01-02T10:00:00'',
          pe_created_at = JStr ''2025-01-02 10:00:00'',
          pe_updated_at = JStr ''2025-01-02 10:00:00''\<rparr>"

definition processed_once :: payroll_system where
  "processed_once = snd (process_sync_payload clk0 (payroll_with [insert_alice]))"

section \<open>Evaluating the examples\<close>

lemmas hr_eval =
  create_sync_payload_def detect_changes_def select_unprocessed_def left_join_def
  change_data_def current_data_def tracked_json_def build_payload_def mark_processed_def
  employee_insert_trigger_def employee_update_trigger_def insert_change_log_def
  update_employees_def update_trigger_when_def sql_ne_def scan_change_log_def
  update_fails_def Let_def

lemmas hr_examples =
  emp1_def emp9_def db_one_def st_one_def ev_ok_def ev_commit_fails_def same_second_row_def
  db_same_second_def st_same_second_def db_null_def

lemmas payroll_eval =
  process_sync_payload_def apply_change_def getitem_def and_then_def insert_or_replace_def
  update_employee_row_def deactivate_row_def sync_log_entry_def bind_parameters_def Let_def

lemmas payroll_examples =
  pe1_def pe2_def snapshot_def snapshot_paid_def mk_change_def insert_alice_def
  insert_malformed_def insert_seven_def insert_overpaid_def
  update_ada_def delete_john_def merge_john_def mk_payload_def clk0_def payroll_with_def
  alice_row_def

lemma db_one_eval:
  "db_one = \<lparr>employees = [emp1],
     employee_change_log =
       [\<lparr>cl_id = 1, cl_employee_id = ''EMP001'', cl_change_type = ''INSERT'',
         cl_old_values = Some [],
         cl_new_values = Some ((''employee_id'', JStr ''EMP001'') # tracked_json emp1),
         cl_change_timestamp = 100, cl_processed = False\<rparr>],
     log_seq = 1\<rparr>"
  by (simp add: db_one_def employee_insert_trigger_def insert_change_log_def emp1_def)

lemma processed_once_eval:
  "processed_once =
     \<lparr>sync_payload_file = Some ((mk_payload [insert_alice])
         \<lparr>metadata := (metadata (mk_payload [insert_alice]))
            \<lparr>md_status := ''processed'', processed_timestamp := Some ''2025-01-02T10:00:01'',
             processed_by := Some ''Payroll System Agent''\<rparr>\<rparr>),
      payroll_db_file = \<lparr>payroll_employees = [pe1, pe2, alice_row],
                         sync_log = [sync_log_entry insert_alice]\<rparr>\<rparr>"
  by (simp add: processed_once_def payroll_eval payroll_examples)

section \<open>The query of the HR tools\<close>

lemma left_join_fst: "fst ` set (left_join rows emps) = set rows"
proof (induction rows)
  case Nil
  then show ?case by (simp add: left_join_def)
next
  case (Cons cl rows)
  have "fst ` set (case filter (\<lambda>e. employee_id e = cl_employee_id cl) emps of
          [] \<Rightarrow> [(cl, None)] | es \<Rightarrow> map (\<lambda>e. (cl, Some e)) es) = {cl}"
    by (cases "filter (\<lambda>e. employee_id e = cl_employee_id cl) emps") (auto simp: image_iff)
  with Cons show ?case
    by (simp add: left_join_def image_Un)
qed

lemma filter_key_distinct:
  "distinct (map f xs) \<Longrightarrow>
   filter (\<lambda>x. f x = k) xs = (case find (\<lambda>x. f x = k) xs of None \<Rightarrow> [] | Some x \<Rightarrow> [x])"
proof (induction xs)
  case Nil
  then show ?case by simp
next
  case (Cons x xs)
  show ?case
  proof (cases "f x = k")
    case True
    with Cons.prems have "\<forall>y\<in>set xs. f y \<noteq> k" by (auto simp: image_iff)
    then have "filter (\<lambda>x. f x = k) xs = []" by (simp add: filter_empty_conv)
    with True show ?thesis by simp
  next
    case False
    with Cons show ?thesis by simp
  qed
qed

lemma left_join_pk:
  assumes "distinct (map employee_id emps)"
  shows "left_join rows emps = map (join_row emps) rows"
proof -
  have "(case filter (\<lambda>e. employee_id e = cl_employee_id cl) emps of
          [] \<Rightarrow> [(cl, None)] | es \<Rightarrow> map (\<lambda>e. (cl, Some e)) es) = [join_row emps cl]" for cl
    using filter_key_distinct [OF assms, of "cl_employee_id cl"]
    by (simp add: join_row_def split: option.splits)
  then show ?thesis
    by (induction rows) (simp_all add: left_join_def)
qed

lemma insort_key_map:
  "insort_key k (f x) (map f xs) = map f (insort_key (\<lambda>x. k (f x)) x xs)"
  by (induction xs) simp_all

lemma sort_key_map:
  "sort_key k (map f xs) = map f (sort_key (\<lambda>x. k (f x)) xs)"
  by (induction xs) (simp_all add: insort_key_map)

lemma select_unprocessed_pk:
  assumes "distinct (map employee_id (employees db))"
  shows "select_unprocessed db =
           map (join_row (employees db))
             (sort_key cl_change_timestamp
                (filter (\<lambda>cl. \<not> cl_processed cl) (scan_change_log db)))"
  by (simp add: select_unprocessed_def left_join_pk [OF assms] filter_map sort_key_map
      join_row_def comp_def)

lemma select_unprocessed_set:
  "fst ` set (select_unprocessed db) = {cl \<in> set (employee_change_log db). \<not> cl_processed cl}"
proof -
  have "fst ` set (select_unprocessed db) =
        fst ` {row \<in> set (left_join (scan_change_log db) (employees db)). \<not> cl_processed (fst row)}"
    by (simp add: select_unprocessed_def)
  also have "\<dots> = {cl \<in> fst ` set (left_join (scan_change_log db) (employees db)). \<not> cl_processed cl}"
    by auto
  finally show ?thesis by (simp add: left_join_fst scan_change_log_def)
qed

lemma select_unprocessed_empty_iff:
  "select_unprocessed db = [] \<longleftrightarrow> (\<forall>cl\<in>set (employee_change_log db). cl_processed cl)"
proof -
  have "select_unprocessed db = [] \<longleftrightarrow> fst ` set (select_unprocessed db) = {}"
    by simp
  then show ?thesis
    unfolding select_unprocessed_set by auto
qed

lemma log_id_change_data: "log_id (change_data row) = cl_id (fst row)"
  by (simp add: change_data_def)

lemma extracted_ids:
  "set (map log_id (map change_data (select_unprocessed db))) =
   cl_id ` {cl \<in> set (employee_change_log db). \<not> cl_processed cl}"
proof -
  have "set (map log_id (map change_data (select_unprocessed db))) =
        cl_id ` fst ` set (select_unprocessed db)"
    by (simp add: image_image log_id_change_data comp_def)
  then show ?thesis by (simp only: select_unprocessed_set)
qed

text \<open>
  The UPDATE of the flags reaches every unprocessed row, so after it every flag is true and
  nothing else has changed.
\<close>

lemma mark_processed_all:
  assumes "\<forall>cl\<in>set rows. \<not> cl_processed cl \<longrightarrow> cl_id cl \<in> set ids"
  shows "mark_processed ids rows = map (\<lambda>cl. cl\<lparr>cl_processed := True\<rparr>) rows"
  unfolding mark_processed_def
proof (rule map_cong [OF refl])
  fix cl assume "cl \<in> set rows"
  with assms have "cl_id cl \<notin> set ids \<Longrightarrow> cl_processed cl" by blast
  then show "(if cl_id cl \<in> set ids then cl\<lparr>cl_processed := True\<rparr> else cl) = cl\<lparr>cl_processed := True\<rparr>"
    by (cases "cl_id cl \<in> set ids") simp_all
qed

lemma mark_extracted:
  "mark_processed (map log_id (map change_data (select_unprocessed db))) (employee_change_log db)
   = map (\<lambda>cl. cl\<lparr>cl_processed := True\<rparr>) (employee_change_log db)"
  by (rule mark_processed_all) (auto simp only: extracted_ids)

lemma set_true_idem: "cl_processed cl \<Longrightarrow> cl\<lparr>cl_processed := True\<rparr> = cl"
  by simp

section \<open>Exactly-once hand-off\<close>

lemma create_sync_payload_nothing:
  assumes "hr_db_file st = Some db" and "fault ev \<noteq> SelectFails"
    and "\<forall>cl\<in>set (employee_change_log db). cl_processed cl"
  shows "create_sync_payload ev st = (NoChanges, st)"
proof -
  from assms(3) have "select_unprocessed db = []"
    by (simp add: select_unprocessed_empty_iff)
  with assms(1,2) show ?thesis
    by (simp add: create_sync_payload_def)
qed

lemma create_sync_payload_created:
  assumes "hr_db_file st = Some db" and "fault ev = NoFault"
    and "select_unprocessed db \<noteq> []"
    and "length (select_unprocessed db) \<le> max_variables ev"
  shows "create_sync_payload ev st =
    (Created (length (select_unprocessed db)) (''SYNC_'' @ now_stamp ev),
     st\<lparr>payload_file := Some (build_payload ev (map change_data (select_unprocessed db))),
        hr_db_file := Some (db\<lparr>employee_change_log :=
           map (\<lambda>cl. cl\<lparr>cl_processed := True\<rparr>) (employee_change_log db)\<rparr>)\<rparr>)"
  using assms
  by (simp add: create_sync_payload_def Let_def mark_extracted [unfolded map_map] build_payload_def
      update_fails_def)

text \<open>
  As long as the unprocessed events are no more than the engine lets one statement bind, a
  call that meets no failure flags every event, and the call after it returns success with
  \<open>changes_processed = 0\<close> and writes nothing.
\<close>

lemma create_sync_payload_twice:
  assumes db: "hr_db_file st = Some db" and f1: "fault ev = NoFault" and f2: "fault ev2 = NoFault"
    and lim: "length (select_unprocessed db) \<le> max_variables ev"
  shows "case create_sync_payload ev st of (r1, st1) \<Rightarrow>
           success r1
         \<and> hr_db_file st1 = Some (db\<lparr>employee_change_log :=
               map (\<lambda>cl. cl\<lparr>cl_processed := True\<rparr>) (employee_change_log db)\<rparr>)
         \<and> ((\<forall>cl\<in>set (employee_change_log db). cl_processed cl) \<longrightarrow>
               r1 = NoChanges \<and> changes_processed r1 = Some 0 \<and> st1 = st)
         \<and> (case create_sync_payload ev2 st1 of (r2, st2) \<Rightarrow>
               r2 = NoChanges \<and> success r2 \<and> changes_processed r2 = Some 0 \<and> st2 = st1)"
proof (cases "select_unprocessed db = []")
  case True
  then have all: "\<forall>cl\<in>set (employee_change_log db). cl_processed cl"
    by (simp add: select_unprocessed_empty_iff)
  then have same: "map (\<lambda>cl. cl\<lparr>cl_processed := True\<rparr>) (employee_change_log db) = employee_change_log db"
    by (intro map_idI) simp
  have r1: "create_sync_payload ev st = (NoChanges, st)"
    using create_sync_payload_nothing [OF db _ all] f1 by simp
  have r2: "create_sync_payload ev2 st = (NoChanges, st)"
    using create_sync_payload_nothing [OF db _ all] f2 by simp
  show ?thesis
    by (simp add: r1 r2 db same)
next
  case False
  let ?db1 = "db\<lparr>employee_change_log :=
           map (\<lambda>cl. cl\<lparr>cl_processed := True\<rparr>) (employee_change_log db)\<rparr>"
  let ?st1 = "st\<lparr>payload_file := Some (build_payload ev (map change_data (select_unprocessed db))),
        hr_db_file := Some ?db1\<rparr>"
  have r1: "create_sync_payload ev st =
      (Created (length (select_unprocessed db)) (''SYNC_'' @ now_stamp ev), ?st1)"
    by (rule create_sync_payload_created [OF db f1 False lim])
  have "\<forall>cl\<in>set (employee_change_log ?db1). cl_processed cl"
    by simp
  moreover have "hr_db_file ?st1 = Some ?db1" by simp
  ultimately have r2: "create_sync_payload ev2 ?st1 = (NoChanges, ?st1)"
    using create_sync_payload_nothing [of ?st1 ?db1 ev2] f2 by simp
  from False have "\<not> (\<forall>cl\<in>set (employee_change_log db). cl_processed cl)"
    by (simp add: select_unprocessed_empty_iff)
  then show ?thesis
    by (simp add: r1 r2)
qed

text \<open>
  With more unprocessed events than that, the payload file is written and then the UPDATE of
  the flags is refused: the call returns an error and leaves every flag as it was.
\<close>

lemma create_sync_payload_over_limit:
  assumes "hr_db_file st = Some db" and "fault ev = NoFault"
    and "max_variables ev < length (select_unprocessed db)"
  shows "create_sync_payload ev st =
    (PayloadError OperationalError,
     st\<lparr>payload_file := Some (build_payload ev (map change_data (select_unprocessed db)))\<rparr>)"
proof -
  from assms(3) have "select_unprocessed db \<noteq> []" by auto
  with assms show ?thesis
    by (simp add: create_sync_payload_def Let_def update_fails_def)
qed

lemma db_many_unprocessed: "length (select_unprocessed db_many) = 32767"
proof -
  let ?P = "\<lambda>cl. \<not> cl_processed cl"
  have pk: "distinct (map employee_id (employees db_many))"
    by (simp add: db_many_def)
  have l0: "length (employee_change_log db_many) = 32767"
    by (simp add: db_many_def)
  have f: "filter ?P (employee_change_log db_many) = employee_change_log db_many"
    by (simp add: db_many_def same_second_row_def filter_map comp_def del: upt_rec_numeral)
  have "length (select_unprocessed db_many) = length (filter ?P (scan_change_log db_many))"
    by (simp add: select_unprocessed_pk [OF pk])
  also have "\<dots> = length (filter ?P (employee_change_log db_many))"
    by (simp add: scan_change_log_def filter_sort)
  also have "\<dots> = 32767"
    by (simp only: f l0)
  finally show ?thesis .
qed

text \<open>
  Claim C1 fails on a large backlog. With 32767 unprocessed change events and the engine's
  limit of 32766 parameters, \<open>create_sync_payload\<close> writes the payload file, is refused the
  UPDATE of the flags and returns an error; no event is marked processed, so the second
  call, with no mutation in between, extracts the same events, writes the payload again
  and returns the same error instead of success with \<open>changes_processed = 0\<close>.
\<close>

theorem create_sync_payload_backlog_stuck:
  "fst (create_sync_payload ev_ok st_many) = PayloadError OperationalError
   \<and> snd (create_sync_payload ev_ok st_many)
       = st_many\<lparr>payload_file :=
           Some (build_payload ev_ok (map change_data (select_unprocessed db_many)))\<rparr>
   \<and> total_changes (build_payload ev_ok (map change_data (select_unprocessed db_many))) = 32767
   \<and> hr_db_file (snd (create_sync_payload ev_ok st_many)) = hr_db_file st_many
   \<and> create_sync_payload ev_ok (snd (create_sync_payload ev_ok st_many))
       = (PayloadError OperationalError, snd (create_sync_payload ev_ok st_many))
   \<and> changes_processed (fst (create_sync_payload ev_ok (snd (create_sync_payload ev_ok st_many))))
       = None"
proof -
  let ?p = "build_payload ev_ok (map change_data (select_unprocessed db_many))"
  have lim: "max_variables ev_ok < length (select_unprocessed db_many)"
    by (simp add: db_many_unprocessed ev_ok_def)
  have nf: "fault ev_ok = NoFault" by (simp add: ev_ok_def)
  have r1: "create_sync_payload ev_ok st_many = (PayloadError OperationalError, st_many\<lparr>payload_file := Some ?p\<rparr>)"
    by (rule create_sync_payload_over_limit [OF _ nf lim]) (simp add: st_many_def)
  have r2: "create_sync_payload ev_ok (st_many\<lparr>payload_file := Some ?p\<rparr>)
              = (PayloadError OperationalError, st_many\<lparr>payload_file := Some ?p\<rparr>)"
    using create_sync_payload_over_limit [OF _ nf lim, of "st_many\<lparr>payload_file := Some ?p\<rparr>"]
    by (simp add: st_many_def)
  have n: "total_changes ?p = 32767"
    by (simp add: build_payload_def db_many_unprocessed)
  show ?thesis
    by (simp only: r1 r2 n fst_conv snd_conv changes_processed.simps simp_thms)
       (simp add: st_many_def)
qed

section \<open>Failures of the extractor\<close>

text \<open>
  When the commit of the flag update fails, the tool returns an error, the flags are as
  before, but the payload file, absent before the call, now holds the new payload.
\<close>

theorem create_sync_payload_commit_failure:
  "fst (create_sync_payload ev_commit_fails st_one) = PayloadError OperationalError
   \<and> hr_db_file (snd (create_sync_payload ev_commit_fails st_one)) = hr_db_file st_one
   \<and> payload_file st_one = None
   \<and> map_option total_changes (payload_file (snd (create_sync_payload ev_commit_fails st_one)))
       = Some 1
   \<and> payload_file (snd (create_sync_payload ev_commit_fails st_one)) \<noteq> payload_file st_one"
  by (simp add: hr_eval hr_examples)

text \<open>
  Claim C4, as the code has it. On an error result the HR database, and so every processed
  flag, is as it was before the call. The payload file is as before as well, except when
  the failure is in the UPDATE of the flags (refused for its number of parameters, or
  failing otherwise) or in its commit: these run after the file has been written, so the
  new payload stays in the file while no event is flagged. On a success that extracted
  something, both the payload and the flags are written.
\<close>

theorem create_sync_payload_effects:
  "case create_sync_payload ev st of
     (r, st') \<Rightarrow>
       (\<not> success r \<longrightarrow>
          hr_db_file st' = hr_db_file st \<and>
          st' = (case hr_db_file st of
                   None \<Rightarrow> st
                 | Some db \<Rightarrow>
                     if fault ev = NoFault \<and> max_variables ev < length (select_unprocessed db)
                        \<or> fault ev = UpdateFails \<or> fault ev = CommitFails
                     then st\<lparr>payload_file :=
                            Some (build_payload ev (map change_data (select_unprocessed db)))\<rparr>
                     else st))
     \<and> (success r \<and> r \<noteq> NoChanges \<longrightarrow>
          (\<exists>db. hr_db_file st = Some db \<and>
             st' = st\<lparr>payload_file :=
                        Some (build_payload ev (map change_data (select_unprocessed db))),
                      hr_db_file := Some (db\<lparr>employee_change_log :=
                        map (\<lambda>cl. cl\<lparr>cl_processed := True\<rparr>) (employee_change_log db)\<rparr>)\<rparr>))"
proof (cases "hr_db_file st")
  case None
  then show ?thesis by (simp add: create_sync_payload_def)
next
  case (Some db)
  show ?thesis
  proof (cases "select_unprocessed db = []")
    case True
    with Some show ?thesis
      by (simp add: create_sync_payload_def)
  next
    case False
    with Some show ?thesis
      by (cases "fault ev")
        (simp_all add: create_sync_payload_def Let_def mark_extracted [unfolded map_map]
           update_fails_def)
  qed
qed

theorem create_sync_payload_effects_witness:
  "\<not> success (fst (create_sync_payload ev_commit_fails st_one))
   \<and> hr_db_file (snd (create_sync_payload ev_commit_fails st_one)) = Some db_one
   \<and> snd (create_sync_payload ev_commit_fails st_one) =
       st_one\<lparr>payload_file :=
          Some (build_payload ev_commit_fails (map change_data (select_unprocessed db_one)))\<rparr>"
  using create_sync_payload_effects [where ev = ev_commit_fails and st = st_one]
  by (simp add: hr_eval hr_examples split: prod.splits)

section \<open>Order of extraction\<close>

lemma insort_key_lex:
  assumes "sorted_wrt (\<lambda>a b. k a < k b \<or> (k a = k b \<and> i a \<le> i b)) ys"
    and "\<forall>y\<in>set ys. i x \<le> i y"
  shows "sorted_wrt (\<lambda>a b. k a < k b \<or> (k a = k b \<and> i a \<le> i b)) (insort_key k x ys)"
  using assms
proof (induction ys)
  case Nil
  then show ?case by simp
next
  case (Cons y ys)
  show ?case
  proof (cases "k x \<le> k y")
    case True
    have "k x < k z \<or> (k x = k z \<and> i x \<le> i z)" if "z \<in> set (y # ys)" for z
    proof -
      from that Cons.prems(1) have "k y \<le> k z" by auto
      with True have "k x \<le> k z" by simp
      moreover from that Cons.prems(2) have "i x \<le> i z" by auto
      ultimately show ?thesis by auto
    qed
    with True Cons.prems(1) show ?thesis by simp
  next
    case False
    with Cons show ?thesis
      by (auto simp: set_insort_key)
  qed
qed

lemma sort_key_lex:
  fixes k :: "'a \<Rightarrow> nat" and i :: "'a \<Rightarrow> nat"
  assumes "sorted (map i xs)"
  shows "sorted_wrt (\<lambda>a b. k a < k b \<or> (k a = k b \<and> i a \<le> i b)) (sort_key k xs)"
  using assms
proof (induction xs)
  case Nil
  then show ?case by simp
next
  case (Cons x xs)
  then have "\<forall>y\<in>set (sort_key k xs). i x \<le> i y" by simp
  moreover from Cons have "sorted_wrt (\<lambda>a b. k a < k b \<or> (k a = k b \<and> i a \<le> i b)) (sort_key k xs)"
    by simp
  ultimately show ?case
    by (simp add: insort_key_lex)
qed

lemma changes_pk:
  assumes "distinct (map employee_id (employees db))"
  shows "map change_data (select_unprocessed db) =
         map (event_change db) (sort_key cl_change_timestamp
                (filter (\<lambda>cl. \<not> cl_processed cl) (scan_change_log db)))"
  by (simp add: select_unprocessed_pk [OF assms] event_change_def join_row_def comp_def)

lemma event_change_fields:
  "log_id (event_change db cl) = cl_id cl"
  "ch_change_timestamp (event_change db cl) = cl_change_timestamp cl"
  by (simp_all add: event_change_def change_data_def)

text \<open>
  The scan does not depend on how the rows of the table are listed: with unique ids, two
  listings of the same rows are scanned in the same order.
\<close>

lemma filter_key_single:
  "distinct (map f xs) \<Longrightarrow> k \<in> set xs \<Longrightarrow> filter (\<lambda>x. f k = f x) xs = [k]"
proof (induction xs)
  case Nil
  then show ?case by simp
next
  case (Cons x xs)
  show ?case
  proof (cases "x = k")
    case True
    with Cons.prems have "\<forall>y\<in>set xs. f k \<noteq> f y" by (auto simp: image_iff)
    then have "filter (\<lambda>x. f k = f x) xs = []" by (simp add: filter_empty_conv)
    with True show ?thesis by simp
  next
    case False
    with Cons.prems have "k \<in> set xs" and "f k \<noteq> f x" by (auto simp: image_iff)
    with Cons show ?thesis by simp
  qed
qed

lemma sort_key_listing:
  assumes m: "mset xs = mset ys" and d: "distinct (map f xs)"
  shows "sort_key f xs = sort_key f ys"
proof (rule properties_for_sort_key)
  show "mset (sort_key f ys) = mset xs" by (simp add: m)
  show "sorted (map f (sort_key f ys))" by simp
  fix k assume "k \<in> set (sort_key f ys)"
  then have ky: "k \<in> set ys" by simp
  with m have kx: "k \<in> set xs" by (metis mset_eq_setD)
  from m have "mset (map f xs) = mset (map f ys)" by simp
  with d have dy: "distinct (map f ys)" by (metis mset_eq_imp_distinct_iff)
  have "filter (\<lambda>x. f x = f k) (sort_key f ys) = filter (\<lambda>x. f x = f k) ys"
    by (rule sort_key_stable)
  then have "filter (\<lambda>x. f k = f x) (sort_key f ys) = filter (\<lambda>x. f k = f x) ys"
    by (simp add: eq_commute [of "f k"])
  also have "\<dots> = [k]" by (rule filter_key_single [OF dy ky])
  also have "\<dots> = filter (\<lambda>x. f k = f x) xs" by (rule filter_key_single [OF d kx, symmetric])
  finally show "filter (\<lambda>x. f k = f x) (sort_key f ys) = filter (\<lambda>x. f k = f x) xs" .
qed

lemma select_unprocessed_listing:
  assumes "mset (employee_change_log db2) = mset (employee_change_log db)"
    and "distinct (map cl_id (employee_change_log db))"
    and "employees db2 = employees db"
  shows "select_unprocessed db2 = select_unprocessed db"
proof -
  have "scan_change_log db = scan_change_log db2"
    unfolding scan_change_log_def
    by (rule sort_key_listing) (simp_all add: assms)
  with assms(3) show ?thesis by (simp add: select_unprocessed_def)
qed

text \<open>
  Claim C5. A successful extraction puts into the payload exactly the change events with
  \<open>processed = false\<close>, each once with the current row of its employee, ordered by
  \<open>change_timestamp\<close> ascending and, among equal timestamps, by \<open>log_id\<close> ascending. The
  order is fixed by the state: \<open>detect_changes\<close> on the same state returns the same list, and
  so does an extraction from any other listing of the same rows.
\<close>

theorem create_sync_payload_order:
  assumes db: "hr_db_file st = Some db"
    and pk: "distinct (map employee_id (employees db))"
    and res: "create_sync_payload ev st = (Created n sid, st')"
  shows "\<exists>p. payload_file st' = Some p
     \<and> mset (changes p) =
         mset (map (event_change db)
                 (filter (\<lambda>cl. \<not> cl_processed cl) (employee_change_log db)))
     \<and> sorted (map ch_change_timestamp (changes p))
     \<and> sorted_wrt (\<lambda>a b. ch_change_timestamp a < ch_change_timestamp b
                     \<or> (ch_change_timestamp a = ch_change_timestamp b \<and> log_id a \<le> log_id b))
         (changes p)
     \<and> (\<forall>ev2. fault ev2 \<noteq> SelectFails \<longrightarrow>
           detected_changes (fst (detect_changes ev2 st)) = Some (changes p))
     \<and> (\<forall>db2. mset (employee_change_log db2) = mset (employee_change_log db)
              \<and> distinct (map cl_id (employee_change_log db))
              \<and> employees db2 = employees db \<longrightarrow>
              map change_data (select_unprocessed db2) = changes p)"
proof -
  let ?P = "\<lambda>cl. \<not> cl_processed cl"
  let ?xs = "filter ?P (scan_change_log db)"
  let ?ys = "sort_key cl_change_timestamp ?xs"
  let ?p = "build_payload ev (map change_data (select_unprocessed db))"
  from res db have pf: "payload_file st' = Some ?p"
    by (auto simp: create_sync_payload_def Let_def split: if_splits)
  have chs: "changes ?p = map change_data (select_unprocessed db)"
    by (simp add: build_payload_def)
  have ch: "changes ?p = map (event_change db) ?ys"
    by (simp add: build_payload_def changes_pk [OF pk])
  have s0: "mset (changes ?p) = mset (map (event_change db) (filter ?P (employee_change_log db)))"
    by (simp add: ch scan_change_log_def)
  have s1: "sorted (map ch_change_timestamp (changes ?p))"
    by (simp add: ch comp_def event_change_fields)
  have "?xs = sort_key cl_id (filter ?P (employee_change_log db))"
    by (simp add: scan_change_log_def filter_sort)
  then have "sorted (map cl_id ?xs)" by simp
  then have "sorted_wrt (\<lambda>a b. cl_change_timestamp a < cl_change_timestamp b
                 \<or> (cl_change_timestamp a = cl_change_timestamp b \<and> cl_id a \<le> cl_id b)) ?ys"
    by (rule sort_key_lex)
  then have s2: "sorted_wrt (\<lambda>a b. ch_change_timestamp a < ch_change_timestamp b
                     \<or> (ch_change_timestamp a = ch_change_timestamp b \<and> log_id a \<le> log_id b))
         (changes ?p)"
    by (simp add: ch sorted_wrt_map event_change_fields)
  have s3: "detected_changes (fst (detect_changes ev2 st)) = Some (changes ?p)"
    if "fault ev2 \<noteq> SelectFails" for ev2
    using that db by (simp add: detect_changes_def Let_def chs)
  have s4: "map change_data (select_unprocessed db2) = changes ?p"
    if "mset (employee_change_log db2) = mset (employee_change_log db)
              \<and> distinct (map cl_id (employee_change_log db))
              \<and> employees db2 = employees db" for db2
    using that select_unprocessed_listing [of db2 db] by (simp add: chs)
  show ?thesis
  proof (intro exI conjI allI impI)
    show "payload_file st' = Some ?p" by (rule pf)
    show "mset (changes ?p) =
         mset (map (event_change db)
                 (filter (\<lambda>cl. \<not> cl_processed cl) (employee_change_log db)))" by (rule s0)
    show "sorted (map ch_change_timestamp (changes ?p))" by (rule s1)
    show "sorted_wrt (\<lambda>a b. ch_change_timestamp a < ch_change_timestamp b
                     \<or> (ch_change_timestamp a = ch_change_timestamp b \<and> log_id a \<le> log_id b))
         (changes ?p)" by (rule s2)
  next
    fix ev2 :: env assume "fault ev2 \<noteq> SelectFails"
    then show "detected_changes (fst (detect_changes ev2 st)) = Some (changes ?p)" by (rule s3)
  next
    fix db2 :: hr_db assume "mset (employee_change_log db2) = mset (employee_change_log db)
              \<and> distinct (map cl_id (employee_change_log db))
              \<and> employees db2 = employees db"
    then show "map change_data (select_unprocessed db2) = changes ?p" by (rule s4)
  qed
qed

text \<open>
  On the example with two events of the same second, listed with id 2 first, the payload has
  them in the order of their ids.
\<close>

theorem create_sync_payload_order_witness:
  "create_sync_payload ev_ok st_same_second = (Created 2 ''SYNC_20250101_120000'',
      snd (create_sync_payload ev_ok st_same_second))
   \<and> distinct (map employee_id (employees db_same_second))
   \<and> map cl_id (employee_change_log db_same_second) = [2, 1]
   \<and> map_option (map log_id \<circ> changes)
        (payload_file (snd (create_sync_payload ev_ok st_same_second))) = Some [1, 2]
   \<and> map_option (map ch_change_timestamp \<circ> changes)
        (payload_file (snd (create_sync_payload ev_ok st_same_second))) = Some [100, 100]"
  using create_sync_payload_order [where st = st_same_second and db = db_same_second
      and ev = ev_ok and n = 2 and sid = "''SYNC_20250101_120000''"
      and st' = "snd (create_sync_payload ev_ok st_same_second)"]
  by (simp add: hr_eval hr_examples event_change_def)

section \<open>\<open>detect_changes\<close> only reads\<close>

text \<open>
  Claim C10. \<open>detect_changes\<close> leaves the database (employees, change log, every processed
  flag) and the payload file as they are; a second call under the same conditions returns
  the same \<open>changes\<close> and \<open>changes_count\<close>; and on an existing database without a
  failure it does return them.
\<close>

theorem detect_changes_read_only:
  "snd (detect_changes ev st) = st
   \<and> (fault ev2 = fault ev \<longrightarrow>
        detected_changes (fst (detect_changes ev2 (snd (detect_changes ev st))))
          = detected_changes (fst (detect_changes ev st))
      \<and> changes_count (fst (detect_changes ev2 (snd (detect_changes ev st))))
          = changes_count (fst (detect_changes ev st)))
   \<and> (hr_db_file st \<noteq> None \<and> fault ev = NoFault \<longrightarrow>
        (\<exists>cs. detected_changes (fst (detect_changes ev st)) = Some cs
             \<and> changes_count (fst (detect_changes ev st)) = Some (length cs)))"
  by (cases "hr_db_file st") (simp_all add: detect_changes_def Let_def)

theorem detect_changes_read_only_witness:
  "snd (detect_changes ev_ok st_one) = st_one
   \<and> changes_count (fst (detect_changes ev_ok st_one)) = Some 1
   \<and> changes_count (fst (detect_changes ev_commit_fails (snd (detect_changes ev_ok st_one)))) = Some 1
   \<and> map_option (map log_id) (detected_changes (fst (detect_changes ev_ok st_one))) = Some [1]"
  using detect_changes_read_only [of ev_ok st_one ev_ok]
  by (simp add: hr_eval hr_examples)

section \<open>The update trigger and NULL\<close>

lemma sql_or_Some: "sql_or (Some a) (Some b) = Some (a \<or> b)"
  by (cases a; cases b) simp_all

text \<open>
  On rows without NULL in the nullable tracked columns the WHEN clause is true exactly when
  some tracked column differs (numbers compared by value).
\<close>

lemma update_trigger_when_no_null:
  assumes "department old \<noteq> JNull" "position old \<noteq> JNull" "salary old \<noteq> JNull"
    "status old \<noteq> JNull" "department new \<noteq> JNull" "position new \<noteq> JNull"
    "salary new \<noteq> JNull" "status new \<noteq> JNull"
  shows "update_trigger_when old new =
     Some (first_name old \<noteq> first_name new \<or> last_name old \<noteq> last_name new
           \<or> email old \<noteq> email new \<or> \<not> same_value (department old) (department new)
           \<or> \<not> same_value (position old) (position new)
           \<or> \<not> same_value (salary old) (salary new)
           \<or> \<not> same_value (status old) (status new))"
  using assms by (auto simp: update_trigger_when_def sql_ne_def sql_or_Some)

text \<open>
  Claim C7 fails on a NULL. An employee without a department gets one; the row changes in a
  tracked column, but \<open>OLD.department != NEW.department\<close> is NULL, the WHEN clause is not
  true, and no change event is recorded.
\<close>

theorem update_null_department_no_event:
  "map department (employees db_null) = [JNull]
   \<and> map department (employees
        (update_employees 200 ''EMP009'' (\<lambda>e. e\<lparr>department := JStr ''Engineering''\<rparr>) db_null))
       = [JStr ''Engineering'']
   \<and> update_trigger_when emp9 (emp9\<lparr>department := JStr ''Engineering''\<rparr>) = None
   \<and> employee_change_log
        (update_employees 200 ''EMP009'' (\<lambda>e. e\<lparr>department := JStr ''Engineering''\<rparr>) db_null)
       = []"
  by (simp add: hr_eval hr_examples)

section \<open>The loop of the payroll agent\<close>

lemma apply_changes_count:
  "apply_changes clk i cs (tbl, n, rs) = Inr (tbl', n', rs') \<Longrightarrow> n' = n + length cs"
proof (induction cs arbitrary: i tbl n rs)
  case Nil
  then show ?case by simp
next
  case (Cons c cs)
  then show ?case
    by (fastforce split: sum.splits prod.splits)
qed

lemma apply_changes_append:
  "apply_changes clk i (cs1 @ cs2) acc =
     (case apply_changes clk i cs1 acc of
        Inl e \<Rightarrow> Inl e
      | Inr acc' \<Rightarrow> apply_changes clk (i + length cs1) cs2 acc')"
proof (induction cs1 arbitrary: i acc)
  case Nil
  then show ?case by simp
next
  case (Cons c cs1)
  obtain tbl n rs where acc: "acc = (tbl, n, rs)" by (cases acc) auto
  show ?case
    by (simp add: acc Cons.IH split: sum.splits prod.splits)
qed

lemma apply_changes_failing_change:
  assumes "apply_changes clk 0 cs1 acc = Inr (tbl1, n1, rs1)"
    and "apply_change clk (length cs1) tbl1 c = Inl e"
  shows "apply_changes clk 0 (cs1 @ c # cs2) acc = Inl e"
  using assms by (simp add: apply_changes_append)

lemma apply_change_unknown:
  "\<not> known_type c \<Longrightarrow> apply_change clk i tbl c = Inr (tbl, [])"
  by (simp add: apply_change_def known_type_def Let_def)

lemma apply_changes_unknown:
  "\<forall>c\<in>set cs. \<not> known_type c \<Longrightarrow>
   apply_changes clk i cs (tbl, n, rs) = Inr (tbl, n + length cs, rs)"
  by (induction cs arbitrary: i n) (simp_all add: apply_change_unknown)

lemma apply_change_delete:
  "ch_change_type c = ''DELETE'' \<Longrightarrow>
   apply_change clk i tbl c =
     Inr (deactivate_row (ch_employee_id c) (apply_time clk i) tbl, [Deactivated (ch_employee_id c)])"
  by (simp add: apply_change_def Let_def)

lemma process_sync_payload_error:
  assumes "sync_payload_file st = Some p"
    and "apply_changes clk 0 (changes p) (payroll_employees (payroll_db_file st), 0, []) = Inl e"
  shows "process_sync_payload clk st = (SyncError e, st)"
  using assms by (simp add: process_sync_payload_def)

lemma process_sync_payload_completed:
  assumes "sync_payload_file st = Some p"
    and "apply_changes clk 0 (changes p) (payroll_employees (payroll_db_file st), 0, []) = Inr (tbl, n, rs)"
  shows "process_sync_payload clk st =
    (SyncCompleted (length (changes p)) (source_system p) (sync_id (metadata p)) rs,
     \<lparr>sync_payload_file = Some (p\<lparr>metadata := (metadata p)
                           \<lparr>md_status := ''processed'',
                            processed_timestamp := Some (processed_time clk),
                            processed_by := Some ''Payroll System Agent''\<rparr>\<rparr>),
      payroll_db_file = \<lparr>payroll_employees = tbl,
                         sync_log = sync_log (payroll_db_file st)
                                      @ map sync_log_entry (changes p)\<rparr>\<rparr>)"
  using assms apply_changes_count [OF assms(2)]
  by (simp add: process_sync_payload_def)

section \<open>A failing change\<close>

text \<open>
  A payload whose second change lacks \<open>first_name\<close>: the tool returns the error, the first
  change's row is not in the database, and \<open>sync_log\<close> has no row for either change.
\<close>

theorem process_sync_payload_malformed_change:
  "process_sync_payload clk0 (payroll_with [insert_alice, insert_malformed])
     = (SyncError (KeyError ''first_name''), payroll_with [insert_alice, insert_malformed])
   \<and> sync_log (payroll_db_file (payroll_with [insert_alice, insert_malformed])) = []
   \<and> payroll_employees (payroll_db_file (payroll_with [insert_alice, insert_malformed])) = [pe1, pe2]"
  by (simp add: payroll_eval payroll_examples)

text \<open>
  Claim C2, as the code has it. \<open>process_sync_payload\<close> applies a payload entirely or not at
  all. When every change applies it reports all of them and appends exactly one
  \<open>sync_log\<close> row per change, each with status \<open>completed\<close> and no error message. When
  applying a change raises, the call returns the error and the database and the payload file
  are as before: no change of the batch is kept and no \<open>sync_log\<close> row is written, for
  the failing change or any other.
\<close>

theorem process_sync_payload_all_or_nothing:
  "(case process_sync_payload clk st of
      (NoPayloadFound, st') \<Rightarrow> st' = st
    | (SyncError e, st') \<Rightarrow> st' = st
    | (SyncCompleted n src sid results, st') \<Rightarrow>
        (\<exists>p. sync_payload_file st = Some p \<and> n = length (changes p)
           \<and> sync_log (payroll_db_file st') =
               sync_log (payroll_db_file st) @ map sync_log_entry (changes p)
           \<and> map sync_status (map sync_log_entry (changes p))
               = replicate (length (changes p)) ''completed''
           \<and> map error_message (map sync_log_entry (changes p))
               = replicate (length (changes p)) None))
   \<and> (\<forall>p cs1 c cs2 tbl1 n1 rs1 e.
         sync_payload_file st = Some p \<and> changes p = cs1 @ c # cs2
         \<and> apply_changes clk 0 cs1 (payroll_employees (payroll_db_file st), 0, []) = Inr (tbl1, n1, rs1)
         \<and> apply_change clk (length cs1) tbl1 c = Inl e
         \<longrightarrow> process_sync_payload clk st = (SyncError e, st))"
proof (intro conjI allI impI)
  have entries: "map sync_status (map sync_log_entry cs) = replicate (length cs) ''completed''
      \<and> map error_message (map sync_log_entry cs) = replicate (length cs) None" for cs
    by (induction cs) (simp_all add: sync_log_entry_def)
  show "case process_sync_payload clk st of
      (NoPayloadFound, st') \<Rightarrow> st' = st
    | (SyncError e, st') \<Rightarrow> st' = st
    | (SyncCompleted n src sid results, st') \<Rightarrow>
        (\<exists>p. sync_payload_file st = Some p \<and> n = length (changes p)
           \<and> sync_log (payroll_db_file st') =
               sync_log (payroll_db_file st) @ map sync_log_entry (changes p)
           \<and> map sync_status (map sync_log_entry (changes p))
               = replicate (length (changes p)) ''completed''
           \<and> map error_message (map sync_log_entry (changes p))
               = replicate (length (changes p)) None)"
  proof (cases "sync_payload_file st")
    case None
    then show ?thesis by (simp add: process_sync_payload_def)
  next
    case (Some p)
    show ?thesis
    proof (cases "apply_changes clk 0 (changes p) (payroll_employees (payroll_db_file st), 0, [])")
      case (Inl e)
      then show ?thesis
        by (simp add: process_sync_payload_error [OF Some])
    next
      case (Inr acc)
      obtain tbl n rs where "acc = (tbl, n, rs)" by (cases acc) auto
      with Inr show ?thesis
        using entries [of "changes p"]
        by (simp add: process_sync_payload_completed [OF Some] Some)
    qed
  qed
next
  fix p cs1 c cs2 tbl1 n1 rs1 e
  assume a: "sync_payload_file st = Some p \<and> changes p = cs1 @ c # cs2
         \<and> apply_changes clk 0 cs1 (payroll_employees (payroll_db_file st), 0, []) = Inr (tbl1, n1, rs1)
         \<and> apply_change clk (length cs1) tbl1 c = Inl e"
  then have "apply_changes clk 0 (changes p) (payroll_employees (payroll_db_file st), 0, []) = Inl e"
    by (simp add: apply_changes_failing_change)
  with a show "process_sync_payload clk st = (SyncError e, st)"
    by (simp add: process_sync_payload_error)
qed

theorem process_sync_payload_all_or_nothing_witness:
  "fst (process_sync_payload clk0 (payroll_with [insert_alice]))
     = SyncCompleted 1 ''hr_system'' ''SYNC_20250102_090000'' [Added ''EMP004'' ''Alice Williams'']
   \<and> sync_log (payroll_db_file (snd (process_sync_payload clk0 (payroll_with [insert_alice]))))
       = [sync_log_entry insert_alice]
   \<and> sync_status (sync_log_entry insert_alice) = ''completed''
   \<and> apply_changes clk0 0 [insert_alice] ([pe1, pe2], 0, [])
       = Inr ([pe1, pe2, alice_row], 1, [Added ''EMP004'' ''Alice Williams''])
   \<and> apply_change clk0 1 [pe1, pe2, alice_row] insert_malformed = Inl (KeyError ''first_name'')
   \<and> process_sync_payload clk0 (payroll_with [insert_alice, insert_malformed])
       = (SyncError (KeyError ''first_name''), payroll_with [insert_alice, insert_malformed])"
  using process_sync_payload_all_or_nothing [where clk = clk0 and st = "payroll_with [insert_alice]"]
    process_sync_payload_all_or_nothing [where clk = clk0
      and st = "payroll_with [insert_alice, insert_malformed]"]
  by (simp add: payroll_eval payroll_examples)

section \<open>A payload that is already processed\<close>

text \<open>
  The payload the first call has marked \<open>processed\<close> is applied again by a second call:
  it reports one change and \<open>sync_log\<close> grows from one row to two.
\<close>

theorem process_sync_payload_reapplies_processed:
  "map_option (\<lambda>p. md_status (metadata p)) (sync_payload_file processed_once) = Some ''processed''
   \<and> processed_count (fst (process_sync_payload clk0 processed_once)) = Some 1
   \<and> length (sync_log (payroll_db_file processed_once)) = 1
   \<and> length (sync_log (payroll_db_file (snd (process_sync_payload clk0 processed_once)))) = 2
   \<and> payroll_employees (payroll_db_file (snd (process_sync_payload clk0 processed_once)))
       = [pe1, pe2, alice_row]"
  by (simp add: processed_once_eval payroll_eval payroll_examples)

text \<open>
  Claim C3, as the code has it. \<open>process_sync_payload\<close> never reads \<open>metadata.status\<close>: on a
  payload marked \<open>processed\<close> it returns what it returns on the same payload marked
  \<open>ready_for_sync\<close> and leaves the same database; when the changes apply, it reports as many
  as the payload has and appends one \<open>sync_log\<close> row for each of them.
\<close>

theorem process_sync_payload_ignores_status:
  assumes pf: "sync_payload_file st = Some p"
    and marked: "md_status (metadata p) = ''processed''"
  shows "fst (process_sync_payload clk st)
           = fst (process_sync_payload clk (st\<lparr>sync_payload_file := Some (set_status ''ready_for_sync'' p)\<rparr>))
       \<and> payroll_db_file (snd (process_sync_payload clk st))
           = payroll_db_file (snd (process_sync_payload clk
               (st\<lparr>sync_payload_file := Some (set_status ''ready_for_sync'' p)\<rparr>)))
       \<and> (case process_sync_payload clk st of
            (SyncCompleted n src sid results, st') \<Rightarrow>
               n = length (changes p)
             \<and> sync_log (payroll_db_file st') =
                 sync_log (payroll_db_file st) @ map sync_log_entry (changes p)
          | (SyncError e, st') \<Rightarrow> st' = st
          | (NoPayloadFound, st') \<Rightarrow> False)"
proof (cases "apply_changes clk 0 (changes p) (payroll_employees (payroll_db_file st), 0, [])")
  case (Inl e)
  then show ?thesis
    using pf by (simp add: process_sync_payload_def set_status_def)
next
  case (Inr acc)
  obtain tbl n rs where "acc = (tbl, n, rs)" by (cases acc) auto
  with Inr show ?thesis
    using pf apply_changes_count [of clk 0 "changes p" _ 0 "[]" tbl n rs]
    by (simp add: process_sync_payload_def set_status_def)
qed

theorem process_sync_payload_ignores_status_witness:
  "sync_payload_file processed_once = Some ((mk_payload [insert_alice])
         \<lparr>metadata := (metadata (mk_payload [insert_alice]))
            \<lparr>md_status := ''processed'', processed_timestamp := Some ''2025-01-02T10:00:01'',
             processed_by := Some ''Payroll System Agent''\<rparr>\<rparr>)
   \<and> fst (process_sync_payload clk0 processed_once)
       = SyncCompleted 1 ''hr_system'' ''SYNC_20250102_090000'' [Added ''EMP004'' ''Alice Williams'']
   \<and> sync_log (payroll_db_file (snd (process_sync_payload clk0 processed_once)))
       = [sync_log_entry insert_alice, sync_log_entry insert_alice]"
  using process_sync_payload_ignores_status [where st = processed_once and clk = clk0
      and p = "(mk_payload [insert_alice])
         \<lparr>metadata := (metadata (mk_payload [insert_alice]))
            \<lparr>md_status := ''processed'', processed_timestamp := Some ''2025-01-02T10:00:01'',
             processed_by := Some ''Payroll System Agent''\<rparr>\<rparr>"]
  by (simp add: processed_once_eval payroll_eval payroll_examples set_status_def)

section \<open>INSERT and UPDATE changes\<close>

text \<open>
  An UPDATE change for an employee the payroll database does not hold is reported as
  applied, and no row for that employee exists afterwards.
\<close>

theorem process_sync_payload_update_creates_nothing:
  "fst (process_sync_payload clk0 (payroll_with [update_ada]))
     = SyncCompleted 1 ''hr_system'' ''SYNC_20250102_090000'' [Updated ''EMP009'' ''Ada Lovelace'']
   \<and> filter (\<lambda>r. pe_employee_id r = JStr ''EMP009'')
        (payroll_employees (payroll_db_file (payroll_with [update_ada]))) = []
   \<and> payroll_employees (payroll_db_file (snd (process_sync_payload clk0 (payroll_with [update_ada]))))
       = [pe1, pe2]
   \<and> filter (\<lambda>r. pe_employee_id r = JStr ''EMP009'')
        (payroll_employees (payroll_db_file (snd (process_sync_payload clk0 (payroll_with [update_ada])))))
       = []"
  by (simp add: payroll_eval payroll_examples)

lemma text_affinity_null: "text_affinity clk v = JNull \<longleftrightarrow> v = JNull"
  by (cases v) simp_all

text \<open>
  Claim C6, as the code has it. For a change whose snapshot has the fields the branch reads,
  with values SQLite accepts as parameters and a non-NULL email: an INSERT change replaces
  whatever rows hold the snapshot's \<open>employee_id\<close> or its email by one new row, with
  \<open>full_name\<close> the first and the last name joined by a space and \<open>last_sync_timestamp\<close> the
  time of application; an UPDATE change rewrites the row of the change's \<open>employee_id\<close> in
  the same way, keeping its \<open>pay_grade\<close> and creation time, provided no other row holds the
  new email; and an UPDATE change for an \<open>employee_id\<close> without a row leaves the table as
  it is. The cells hold the snapshot's values as the columns' affinities store them.
\<close>

theorem apply_change_insert_update:
  assumes fn: "map_of (ch_new_values c) ''first_name'' = Some fname"
    and ln: "map_of (ch_new_values c) ''last_name'' = Some lname"
    and em: "map_of (ch_new_values c) ''email'' = Some new_email"
    and dp: "map_of (ch_new_values c) ''department'' = Some new_department"
    and po: "map_of (ch_new_values c) ''position'' = Some new_position"
    and sa: "map_of (ch_new_values c) ''salary'' = Some new_salary"
    and st: "map_of (ch_new_values c) ''status'' = Some new_status"
    and bd: "list_all bindable [new_email, new_department, new_position, new_salary, new_status]"
    and nn: "new_email \<noteq> JNull"
  shows
   "(ch_change_type c = ''INSERT'' \<and> map_of (ch_new_values c) ''employee_id'' = Some new_id
       \<and> bindable new_id \<longrightarrow>
       (\<exists>tbl'. apply_change clk i tbl c
                 = Inr (tbl', [Added (ch_employee_id c) (py_str clk fname @ '' '' @ py_str clk lname)])
          \<and> tbl' = filter (\<lambda>old. \<not> ((new_id \<noteq> JNull \<and> pe_employee_id old = text_affinity clk new_id)
                                     \<or> pe_email old = text_affinity clk new_email)) tbl
                   @ [\<lparr>pe_employee_id = text_affinity clk new_id,
                       full_name = py_str clk fname @ '' '' @ py_str clk lname,
                       pe_email = text_affinity clk new_email,
                       pe_department = text_affinity clk new_department,
                       pe_position = text_affinity clk new_position,
                       base_salary = numeric_affinity clk new_salary,
                       pay_grade = JNull, tax_status = text_affinity clk new_status,
                       last_sync_timestamp = JStr (apply_time clk i),
                       pe_created_at = JStr (current_timestamp clk i),
                       pe_updated_at = JStr (current_timestamp clk i)\<rparr>]
          \<and> (new_id \<noteq> JNull \<longrightarrow>
                map full_name (filter (\<lambda>r. pe_employee_id r = text_affinity clk new_id) tbl')
                  = [py_str clk fname @ '' '' @ py_str clk lname]
              \<and> map last_sync_timestamp
                  (filter (\<lambda>r. pe_employee_id r = text_affinity clk new_id) tbl')
                  = [JStr (apply_time clk i)])))
    \<and> (ch_change_type c = ''UPDATE''
         \<and> \<not> list_ex (\<lambda>r. pe_employee_id r = JStr (ch_employee_id c)) tbl \<longrightarrow>
         apply_change clk i tbl c
           = Inr (tbl, [Updated (ch_employee_id c) (py_str clk fname @ '' '' @ py_str clk lname)]))
    \<and> (ch_change_type c = ''UPDATE''
         \<and> \<not> list_ex (\<lambda>r. pe_employee_id r \<noteq> JStr (ch_employee_id c)
                             \<and> pe_email r = text_affinity clk new_email) tbl \<longrightarrow>
         apply_change clk i tbl c
           = Inr (map (\<lambda>r. if pe_employee_id r = JStr (ch_employee_id c)
                            then r\<lparr>full_name := py_str clk fname @ '' '' @ py_str clk lname,
                                   pe_email := text_affinity clk new_email,
                                   pe_department := text_affinity clk new_department,
                                   pe_position := text_affinity clk new_position,
                                   base_salary := numeric_affinity clk new_salary,
                                   tax_status := text_affinity clk new_status,
                                   last_sync_timestamp := JStr (apply_time clk i)\<rparr>
                            else r) tbl,
                  [Updated (ch_employee_id c) (py_str clk fname @ '' '' @ py_str clk lname)]))"
proof (intro conjI impI)
  assume a: "ch_change_type c = ''INSERT'' \<and> map_of (ch_new_values c) ''employee_id'' = Some new_id
       \<and> bindable new_id"
  let ?new = "\<lparr>pe_employee_id = text_affinity clk new_id,
                       full_name = py_str clk fname @ '' '' @ py_str clk lname,
                       pe_email = text_affinity clk new_email,
                       pe_department = text_affinity clk new_department,
                       pe_position = text_affinity clk new_position,
                       base_salary = numeric_affinity clk new_salary,
                       pay_grade = JNull, tax_status = text_affinity clk new_status,
                       last_sync_timestamp = JStr (apply_time clk i),
                       pe_created_at = JStr (current_timestamp clk i),
                       pe_updated_at = JStr (current_timestamp clk i)\<rparr>"
  let ?kept = "filter (\<lambda>old. \<not> ((new_id \<noteq> JNull \<and> pe_employee_id old = text_affinity clk new_id)
                                     \<or> pe_email old = text_affinity clk new_email)) tbl"
  have run: "apply_change clk i tbl c
      = Inr (?kept @ [?new], [Added (ch_employee_id c) (py_str clk fname @ '' '' @ py_str clk lname)])"
    using a fn ln em dp po sa st bd nn
    by (simp add: apply_change_def Let_def getitem_def and_then_def insert_or_replace_def
        bind_parameters_def text_affinity_null)
  have one: "filter (\<lambda>r. pe_employee_id r = text_affinity clk new_id) (?kept @ [?new]) = [?new]"
    if "new_id \<noteq> JNull"
  proof -
    have "filter (\<lambda>r. pe_employee_id r = text_affinity clk new_id) ?kept = []"
      using that by (auto simp: filter_empty_conv)
    then show ?thesis by simp
  qed
  show "\<exists>tbl'. apply_change clk i tbl c
                 = Inr (tbl', [Added (ch_employee_id c) (py_str clk fname @ '' '' @ py_str clk lname)])
          \<and> tbl' = ?kept @ [?new]
          \<and> (new_id \<noteq> JNull \<longrightarrow>
                map full_name (filter (\<lambda>r. pe_employee_id r = text_affinity clk new_id) tbl')
                  = [py_str clk fname @ '' '' @ py_str clk lname]
              \<and> map last_sync_timestamp
                  (filter (\<lambda>r. pe_employee_id r = text_affinity clk new_id) tbl')
                  = [JStr (apply_time clk i)])"
    using run one by simp
next
  assume "ch_change_type c = ''UPDATE''
         \<and> \<not> list_ex (\<lambda>r. pe_employee_id r = JStr (ch_employee_id c)) tbl"
  then show "apply_change clk i tbl c
           = Inr (tbl, [Updated (ch_employee_id c) (py_str clk fname @ '' '' @ py_str clk lname)])"
    using fn ln em dp po sa st bd
    by (simp add: apply_change_def Let_def getitem_def and_then_def update_employee_row_def
        bind_parameters_def)
next
  assume a: "ch_change_type c = ''UPDATE''
         \<and> \<not> list_ex (\<lambda>r. pe_employee_id r \<noteq> JStr (ch_employee_id c)
                             \<and> pe_email r = text_affinity clk new_email) tbl"
  let ?upd = "\<lambda>r. if pe_employee_id r = JStr (ch_employee_id c)
                            then r\<lparr>full_name := py_str clk fname @ '' '' @ py_str clk lname,
                                   pe_email := text_affinity clk new_email,
                                   pe_department := text_affinity clk new_department,
                                   pe_position := text_affinity clk new_position,
                                   base_salary := numeric_affinity clk new_salary,
                                   tax_status := text_affinity clk new_status,
                                   last_sync_timestamp := JStr (apply_time clk i)\<rparr>
                            else r"
  have "map ?upd tbl = tbl" if "\<not> list_ex (\<lambda>r. pe_employee_id r = JStr (ch_employee_id c)) tbl"
    using that by (intro map_idI) (auto simp: list_ex_iff)
  with a show "apply_change clk i tbl c
           = Inr (map ?upd tbl, [Updated (ch_employee_id c) (py_str clk fname @ '' '' @ py_str clk lname)])"
    using fn ln em dp po sa st bd nn
    by (simp add: apply_change_def Let_def getitem_def and_then_def update_employee_row_def
        bind_parameters_def text_affinity_null)
qed

theorem apply_change_insert_update_witness:
  "apply_change clk0 0 [pe1, pe2] insert_alice
     = Inr ([pe1, pe2, alice_row], [Added ''EMP004'' ''Alice Williams''])
   \<and> apply_change clk0 0 [pe1, pe2] update_ada = Inr ([pe1, pe2], [Updated ''EMP009'' ''Ada Lovelace''])
   \<and> apply_change clk0 0 [pe1, pe2, alice_row] (update_ada\<lparr>ch_employee_id := ''EMP004''\<rparr>)
       = Inr ([pe1, pe2, alice_row\<lparr>full_name := ''Ada Lovelace'', pe_email := JStr ''ada@company.com'',
                                   last_sync_timestamp := JStr ''2025-01-02T10:00:00''\<rparr>],
              [Updated ''EMP004'' ''Ada Lovelace''])"
  using apply_change_insert_update [where c = insert_alice and fname = "JStr ''Alice''"
      and lname = "JStr ''Williams''" and new_email = "JStr ''alice.williams@company.com''"
      and new_department = "JStr ''HR''" and new_position = "JStr ''HR Specialist''"
      and new_salary = "JNum 65000" and new_status = "JStr ''active''"
      and new_id = "JStr ''EMP004''" and clk = clk0 and i = 0 and tbl = "[pe1, pe2]"]
  by (simp add: payroll_eval payroll_examples)

text \<open>
  The conversions on the way into the table: a numeric \<open>employee_id\<close> is stored as its text
  and replaces the row that holds that text, a fractional salary is stored as it is, and an
  integer beyond 64 bits raises \<open>OverflowError\<close>.
\<close>

lemma show_int_7: "show_int 7 = ''7''"
proof -
  have "char_of (55::nat) = CHR ''7''" by code_simp
  then show ?thesis by (simp add: show_int_def show_nat.simps [of 7])
qed

lemma floor_half: "\<lfloor>130001 / 2 :: rat\<rfloor> = 65000"
  by (simp add: floor_eq_iff)

lemma half_stays_real: "integer_if_exact (JReal (130001 / 2)) = JReal (130001 / 2)"
  by (simp add: floor_half)

lemma apply_change_conversions:
  "map_sum id (map (\<lambda>r. (pe_employee_id r, full_name r, base_salary r)) \<circ> fst)
     (apply_change clk0 0 [pe1, pe2\<lparr>pe_employee_id := JStr ''7''\<rparr>] insert_seven)
     = Inr [(JStr ''EMP001'', ''John Doe'', JNum 95000),
            (JStr ''7'', ''Sam Seven'', JReal (130001 / 2))]"
  "apply_change clk0 0 [pe1, pe2] insert_overpaid = Inl OverflowError"
  by (simp_all add: payroll_eval payroll_examples show_int_7 half_stays_real
      del: integer_if_exact.simps)

section \<open>DELETE changes\<close>

lemma deactivate_row_length: "length (deactivate_row eid now tbl) = length tbl"
  by (simp add: deactivate_row_def)

lemma deactivate_row_nth:
  "j < length tbl \<Longrightarrow>
   deactivate_row eid now tbl ! j =
     (if pe_employee_id (tbl ! j) = JStr eid
      then (tbl ! j)\<lparr>tax_status := JStr ''inactive'', last_sync_timestamp := JStr now\<rparr>
      else tbl ! j)"
  by (simp add: deactivate_row_def)

lemma deactivate_row_ids:
  "map pe_employee_id (deactivate_row eid now tbl) = map pe_employee_id tbl"
  by (simp add: deactivate_row_def)

lemma deactivate_row_frame:
  "map except_sync_flags (deactivate_row eid now tbl) = map except_sync_flags tbl"
  by (simp add: deactivate_row_def except_sync_flags_def)

lemma apply_changes_delete_only:
  assumes "\<forall>c\<in>set cs. ch_change_type c = ''DELETE''"
  shows "\<exists>tbl'. apply_changes clk i cs (tbl, n, rs)
             = Inr (tbl', n + length cs, rs @ map (\<lambda>c. Deactivated (ch_employee_id c)) cs)
           \<and> map pe_employee_id tbl' = map pe_employee_id tbl
           \<and> map except_sync_flags tbl' = map except_sync_flags tbl
           \<and> (\<forall>j<length tbl. pe_employee_id (tbl ! j) \<notin> (\<lambda>c. JStr (ch_employee_id c)) ` set cs
                  \<longrightarrow> tbl' ! j = tbl ! j)"
  using assms
proof (induction cs arbitrary: i tbl n rs)
  case Nil
  then show ?case by simp
next
  case (Cons c cs)
  let ?t1 = "deactivate_row (ch_employee_id c) (apply_time clk i) tbl"
  from Cons.prems have d: "ch_change_type c = ''DELETE''" and rest: "\<forall>c\<in>set cs. ch_change_type c = ''DELETE''"
    by simp_all
  from Cons.IH [OF rest, of "Suc i" ?t1 "n + 1" "rs @ [Deactivated (ch_employee_id c)]"]
  obtain tbl' where
    run: "apply_changes clk (Suc i) cs (?t1, n + 1, rs @ [Deactivated (ch_employee_id c)])
           = Inr (tbl', n + 1 + length cs,
                  (rs @ [Deactivated (ch_employee_id c)]) @ map (\<lambda>c. Deactivated (ch_employee_id c)) cs)"
    and ids: "map pe_employee_id tbl' = map pe_employee_id ?t1"
    and frame: "map except_sync_flags tbl' = map except_sync_flags ?t1"
    and others: "\<forall>j<length ?t1. pe_employee_id (?t1 ! j) \<notin> (\<lambda>c. JStr (ch_employee_id c)) ` set cs
                  \<longrightarrow> tbl' ! j = ?t1 ! j"
    by blast
  have "apply_changes clk i (c # cs) (tbl, n, rs)
          = Inr (tbl', n + length (c # cs), rs @ map (\<lambda>c. Deactivated (ch_employee_id c)) (c # cs))"
    using run by (simp add: apply_change_delete [OF d])
  moreover have "map pe_employee_id tbl' = map pe_employee_id tbl"
    using ids by (simp add: deactivate_row_ids)
  moreover have "map except_sync_flags tbl' = map except_sync_flags tbl"
    using frame by (simp add: deactivate_row_frame)
  moreover have "\<forall>j<length tbl. pe_employee_id (tbl ! j) \<notin> (\<lambda>c. JStr (ch_employee_id c)) ` set (c # cs)
                  \<longrightarrow> tbl' ! j = tbl ! j"
  proof (intro allI impI)
    fix j assume j: "j < length tbl"
      and nin: "pe_employee_id (tbl ! j) \<notin> (\<lambda>c. JStr (ch_employee_id c)) ` set (c # cs)"
    from nin have ne: "pe_employee_id (tbl ! j) \<noteq> JStr (ch_employee_id c)" by auto
    with j have same: "?t1 ! j = tbl ! j" by (simp add: deactivate_row_nth)
    from nin have "pe_employee_id (?t1 ! j) \<notin> (\<lambda>c. JStr (ch_employee_id c)) ` set cs"
      by (auto simp: same)
    with others j have "tbl' ! j = ?t1 ! j" by (simp add: deactivate_row_length)
    with same show "tbl' ! j = tbl ! j" by simp
  qed
  ultimately show ?case by blast
qed

text \<open>
  Claim C8. Applying a DELETE change never fails and removes no row: the table keeps its
  rows and their ids, the rows of the change's \<open>employee_id\<close> get \<open>tax_status = 'inactive'\<close>
  and the time of application as \<open>last_sync_timestamp\<close> and are otherwise unchanged, and every
  other row is unchanged. For a payload of DELETE changes the whole call succeeds, all rows
  keep every column but those two, and rows no change names are unchanged.
\<close>

theorem delete_change_is_soft:
  "(ch_change_type c = ''DELETE'' \<longrightarrow>
      (\<exists>tbl'. apply_change clk i tbl c = Inr (tbl', [Deactivated (ch_employee_id c)])
         \<and> length tbl' = length tbl
         \<and> map pe_employee_id tbl' = map pe_employee_id tbl
         \<and> (\<forall>j<length tbl. tbl' ! j =
               (if pe_employee_id (tbl ! j) = JStr (ch_employee_id c)
                then (tbl ! j)\<lparr>tax_status := JStr ''inactive'',
                                last_sync_timestamp := JStr (apply_time clk i)\<rparr>
                else tbl ! j))))
   \<and> (sync_payload_file st = Some p \<and> (\<forall>d\<in>set (changes p). ch_change_type d = ''DELETE'') \<longrightarrow>
        (\<exists>st' results.
           process_sync_payload clk st
             = (SyncCompleted (length (changes p)) (source_system p) (sync_id (metadata p)) results, st')
         \<and> map pe_employee_id (payroll_employees (payroll_db_file st'))
             = map pe_employee_id (payroll_employees (payroll_db_file st))
         \<and> map except_sync_flags (payroll_employees (payroll_db_file st'))
             = map except_sync_flags (payroll_employees (payroll_db_file st))
         \<and> (\<forall>j<length (payroll_employees (payroll_db_file st)).
               pe_employee_id (payroll_employees (payroll_db_file st) ! j)
                 \<notin> (\<lambda>d. JStr (ch_employee_id d)) ` set (changes p)
               \<longrightarrow> payroll_employees (payroll_db_file st') ! j
                     = payroll_employees (payroll_db_file st) ! j)))"
proof (intro conjI impI)
  assume d: "ch_change_type c = ''DELETE''"
  show "\<exists>tbl'. apply_change clk i tbl c = Inr (tbl', [Deactivated (ch_employee_id c)])
         \<and> length tbl' = length tbl
         \<and> map pe_employee_id tbl' = map pe_employee_id tbl
         \<and> (\<forall>j<length tbl. tbl' ! j =
               (if pe_employee_id (tbl ! j) = JStr (ch_employee_id c)
                then (tbl ! j)\<lparr>tax_status := JStr ''inactive'',
                                last_sync_timestamp := JStr (apply_time clk i)\<rparr>
                else tbl ! j))"
    using apply_change_delete [OF d, of clk i tbl]
    by (simp add: deactivate_row_length deactivate_row_ids deactivate_row_nth)
next
  assume a: "sync_payload_file st = Some p \<and> (\<forall>d\<in>set (changes p). ch_change_type d = ''DELETE'')"
  let ?tbl = "payroll_employees (payroll_db_file st)"
  from a apply_changes_delete_only [of "changes p" clk 0 ?tbl 0 "[]"]
  obtain tbl' where
    run: "apply_changes clk 0 (changes p) (?tbl, 0, [])
           = Inr (tbl', 0 + length (changes p), [] @ map (\<lambda>c. Deactivated (ch_employee_id c)) (changes p))"
    and ids: "map pe_employee_id tbl' = map pe_employee_id ?tbl"
    and frame: "map except_sync_flags tbl' = map except_sync_flags ?tbl"
    and others: "\<forall>j<length ?tbl. pe_employee_id (?tbl ! j) \<notin> (\<lambda>c. JStr (ch_employee_id c)) ` set (changes p)
                  \<longrightarrow> tbl' ! j = ?tbl ! j"
    by blast
  from a have pf: "sync_payload_file st = Some p" by simp
  show "\<exists>st' results.
           process_sync_payload clk st
             = (SyncCompleted (length (changes p)) (source_system p) (sync_id (metadata p)) results, st')
         \<and> map pe_employee_id (payroll_employees (payroll_db_file st'))
             = map pe_employee_id (payroll_employees (payroll_db_file st))
         \<and> map except_sync_flags (payroll_employees (payroll_db_file st'))
             = map except_sync_flags (payroll_employees (payroll_db_file st))
         \<and> (\<forall>j<length (payroll_employees (payroll_db_file st)).
               pe_employee_id (payroll_employees (payroll_db_file st) ! j)
                 \<notin> (\<lambda>d. JStr (ch_employee_id d)) ` set (changes p)
               \<longrightarrow> payroll_employees (payroll_db_file st') ! j
                     = payroll_employees (payroll_db_file st) ! j)"
    using process_sync_payload_completed [OF pf run] ids frame others
    by simp
qed

theorem delete_change_is_soft_witness:
  "apply_change clk0 0 [pe1, pe2] delete_john
     = Inr ([pe1\<lparr>tax_status := JStr ''inactive'', last_sync_timestamp := JStr ''2025-01-02T10:00:00''\<rparr>, pe2],
            [Deactivated ''EMP001''])
   \<and> process_sync_payload clk0 (payroll_with [delete_john])
       = (SyncCompleted 1 ''hr_system'' ''SYNC_20250102_090000'' [Deactivated ''EMP001''],
          snd (process_sync_payload clk0 (payroll_with [delete_john])))
   \<and> payroll_employees (payroll_db_file (snd (process_sync_payload clk0 (payroll_with [delete_john]))))
       = [pe1\<lparr>tax_status := JStr ''inactive'', last_sync_timestamp := JStr ''2025-01-02T10:00:00''\<rparr>, pe2]"
  using delete_change_is_soft [where c = delete_john and clk = clk0 and i = 0
      and tbl = "[pe1, pe2]" and st = "payroll_with [delete_john]"
      and p = "mk_payload [delete_john]"]
  by (simp add: payroll_eval payroll_examples)

section \<open>Changes of an unknown type\<close>

text \<open>
  Claim C9. In a call that completes, a change whose type is none of INSERT, UPDATE and
  DELETE writes no payroll row and adds no result line, whatever the table holds; it is
  counted in the reported number of changes; and it gets its \<open>sync_log\<close> row with status
  \<open>completed\<close> and no error message, like an applied change. A payload of such changes
  alone leaves \<open>payroll_employees\<close> as it was.
\<close>

theorem unknown_change_type_counted_and_logged:
  assumes pf: "sync_payload_file st = Some p"
    and mem: "c \<in> set (changes p)"
    and unknown: "ch_change_type c \<noteq> ''INSERT''" "ch_change_type c \<noteq> ''UPDATE''"
                 "ch_change_type c \<noteq> ''DELETE''"
    and completed: "process_sync_payload clk st = (SyncCompleted n src sid results, st')"
  shows "(\<forall>i tbl. apply_change clk i tbl c = Inr (tbl, []))
       \<and> n = length (changes p)
       \<and> sync_log (payroll_db_file st')
           = sync_log (payroll_db_file st) @ map sync_log_entry (changes p)
       \<and> sync_log_entry c \<in> set (map sync_log_entry (changes p))
       \<and> sync_status (sync_log_entry c) = ''completed''
       \<and> error_message (sync_log_entry c) = None
       \<and> sync_type (sync_log_entry c) = ''HR_'' @ ch_change_type c
       \<and> ((\<forall>d\<in>set (changes p). \<not> known_type d) \<longrightarrow>
            payroll_employees (payroll_db_file st') = payroll_employees (payroll_db_file st))"
proof -
  from unknown have nk: "\<not> known_type c" by (simp add: known_type_def)
  have step: "\<forall>i tbl. apply_change clk i tbl c = Inr (tbl, [])"
    by (simp add: apply_change_unknown [OF nk])
  from completed pf obtain tbl k where
    run: "apply_changes clk 0 (changes p) (payroll_employees (payroll_db_file st), 0, []) = Inr (tbl, k, results)"
    by (auto simp: process_sync_payload_def split: sum.splits)
  from process_sync_payload_completed [OF pf run] completed
  have n: "n = length (changes p)"
    and lg: "sync_log (payroll_db_file st')
           = sync_log (payroll_db_file st) @ map sync_log_entry (changes p)"
    and tbl: "payroll_employees (payroll_db_file st') = tbl"
    by auto
  have "tbl = payroll_employees (payroll_db_file st)" if "\<forall>d\<in>set (changes p). \<not> known_type d"
    using apply_changes_unknown [OF that, of clk 0 "payroll_employees (payroll_db_file st)" 0 "[]"] run
    by simp
  with step n lg tbl mem show ?thesis
    by (simp add: sync_log_entry_def)
qed

theorem unknown_change_type_witness:
  "process_sync_payload clk0 (payroll_with [merge_john])
     = (SyncCompleted 1 ''hr_system'' ''SYNC_20250102_090000'' [],
        snd (process_sync_payload clk0 (payroll_with [merge_john])))
   \<and> payroll_employees (payroll_db_file (snd (process_sync_payload clk0 (payroll_with [merge_john]))))
       = [pe1, pe2]
   \<and> map sync_status (sync_log (payroll_db_file (snd (process_sync_payload clk0 (payroll_with [merge_john])))))
       = [''completed'']
   \<and> map sync_type (sync_log (payroll_db_file (snd (process_sync_payload clk0 (payroll_with [merge_john])))))
       = [''HR_MERGE'']"
  using unknown_change_type_counted_and_logged [where st = "payroll_with [merge_john]"
      and p = "mk_payload [merge_john]" and c = merge_john and clk = clk0 and n = 1
      and src = "''hr_system''" and sid = "''SYNC_20250102_090000''" and results = "[]"
      and st' = "snd (process_sync_payload clk0 (payroll_with [merge_john]))"]
  by (simp add: payroll_eval payroll_examples)

end
